theory Spec2Isabelle
  imports Complex_Main "HOL-Library.Char_ord" "HOL-Library.List_Lexorder"
    "HOL-Library.Product_Lexorder"
begin

section \<open>JavaScript numbers and property reads\<close>

text \<open>
  A JavaScript number is an IEEE 754 double. A finite double is modelled as the real it
  denotes, and every arithmetic operation returns the exact result rounded to the nearest
  double, ties to even, as the standard prescribes for \<open>+\<close>, \<open>-\<close>, \<open>*\<close> and \<open>/\<close>
  and for reading a decimal literal. \<open>NaN\<close> is the one non-finite value the scoring
  code can produce. Two things are left out: the sign of zero, which no operation
  modelled here tells apart, and overflow to \<open>Infinity\<close>, which needs a result of
  \<open>2^1024\<close> or more. Counts and timestamps are integers below \<open>2^53\<close>, on which
  addition, subtraction and comparison are exact; they are natural numbers in the model.
\<close>

text \<open>
  The binary exponent of a real: the \<open>e\<close> with \<open>2^e \<le> |x| < 2^(e+1)\<close>, found by
  adding the powers of two from \<open>1024\<close> down to \<open>1\<close> to the least exponent \<open>-1022\<close>
  of a normal double; below \<open>2^-1022\<close>, and at \<open>0\<close>, it stays \<open>-1022\<close>, the
  exponent of the subnormal doubles.
\<close>

definition binExp :: "real \<Rightarrow> int" where
  "binExp x = foldl (\<lambda>e s. if 2 powi (e + s) \<le> \<bar>x\<bar> then e + s else e) (- 1022)
                [1024, 512, 256, 128, 64, 32, 16, 8, 4, 2, 1]"

text \<open>The nearest integer, a tie going to the even one.\<close>

definition roundHalfEven :: "real \<Rightarrow> int" where
  "roundHalfEven x =
     (let f = \<lfloor>x\<rfloor>; r = x - of_int f
      in if r < 1 / 2 then f else if 1 / 2 < r then f + 1 else if even f then f else f + 1)"

text \<open>
  The double nearest to a real: a double with exponent \<open>e\<close> is a multiple of
  \<open>2^(e-52)\<close>, its significand having 53 bits.
\<close>

definition fl :: "real \<Rightarrow> real" where
  "fl x = (let u = 2 powi (binExp x - 52) in of_int (roundHalfEven (x / u)) * u)"

text \<open>The four operations on finite doubles.\<close>

definition dadd :: "real \<Rightarrow> real \<Rightarrow> real" where
  "dadd a b = fl (a + b)"

definition dsub :: "real \<Rightarrow> real \<Rightarrow> real" where
  "dsub a b = fl (a - b)"

definition dmul :: "real \<Rightarrow> real \<Rightarrow> real" where
  "dmul a b = fl (a * b)"

definition ddiv :: "real \<Rightarrow> real \<Rightarrow> real" where
  "ddiv a b = fl (a / b)"

datatype jsnum = NaN | Num real

fun js_add :: "jsnum \<Rightarrow> jsnum \<Rightarrow> jsnum" where
  "js_add (Num a) (Num b) = Num (dadd a b)"
| "js_add _ _ = NaN"

text \<open>\<open>Math.max(0, x)\<close>: \<open>NaN\<close> when \<open>x\<close> is \<open>NaN\<close>.\<close>

fun js_max0 :: "jsnum \<Rightarrow> jsnum" where
  "js_max0 (Num a) = Num (max 0 a)"
| "js_max0 NaN = NaN"

text \<open>\<open>x >= y\<close> and \<open>x < y\<close> on numbers: every comparison with \<open>NaN\<close> is false.\<close>

fun js_ge :: "jsnum \<Rightarrow> real \<Rightarrow> bool" where
  "js_ge (Num a) b = (b \<le> a)"
| "js_ge NaN b = False"

fun js_lt :: "jsnum \<Rightarrow> real \<Rightarrow> bool" where
  "js_lt (Num a) b = (a < b)"
| "js_lt NaN b = False"

text \<open>What reading a property of the object literal \<open>SCORING_WEIGHTS\<close> can yield.\<close>

datatype jsval = Undefined | Number real | Inherited

section \<open>Scoring (src/lib/domain-utils.ts)\<close>

text \<open>
  The weights are the doubles their literals denote: \<open>0.1\<close> is not a double and
  reads as the nearest one; the others are doubles.
\<close>

definition SCORING_WEIGHTS :: "(string \<times> real) list" where
  "SCORING_WEIGHTS =
     [(''scan'', fl 0.1), (''lookup'', 1.0), (''trace'', 1.0), (''manual'', 2.0),
      (''import'', 0.5), (''wordbank'', fl 0.1), (''rate_known'', 5.0),
      (''rate_familiar'', 3.0), (''rate_unknown'', 1.0)]"

text \<open>
  \<open>SCORING_WEIGHTS\<close> is an ordinary object literal, so a read \<open>SCORING_WEIGHTS[k]\<close>
  that finds no own property continues along the prototype chain. These are the property
  names every object literal inherits from \<open>Object.prototype\<close>; each of them reads as a
  function or an object, never as a number.
\<close>

definition objectPrototypeKeys :: "string list" where
  "objectPrototypeKeys =
     [''constructor'', ''hasOwnProperty'', ''isPrototypeOf'', ''propertyIsEnumerable'',
      ''toLocaleString'', ''toString'', ''valueOf'', ''__proto__'',
      ''__defineGetter__'', ''__defineSetter__'', ''__lookupGetter__'',
      ''__lookupSetter__'']"

definition weightRead :: "string \<Rightarrow> jsval" where
  "weightRead k =
     (case map_of SCORING_WEIGHTS k of
        Some w \<Rightarrow> Number w
      | None \<Rightarrow> if k \<in> set objectPrototypeKeys then Inherited else Undefined)"

text \<open>
  \<open>(SCORING_WEIGHTS[e.source] || 0.1) * multiplier\<close>: \<open>undefined\<close> and the number
  \<open>0\<close> are falsy and give the fallback; a function or object is truthy and its product
  with a number is \<open>NaN\<close>.
\<close>

definition points :: "string \<Rightarrow> real \<Rightarrow> jsnum" where
  "points src multiplier =
     (case weightRead src of
        Undefined \<Rightarrow> Num (dmul (fl 0.1) multiplier)
      | Number w \<Rightarrow> if w = 0 then Num (dmul (fl 0.1) multiplier) else Num (dmul w multiplier)
      | Inherited \<Rightarrow> NaN)"

text \<open>
  \<open>calculateWeightedScore\<close> reads only the \<open>source\<close> field of each encounter, so it
  takes the list of source tags. The \<open>reduce\<close> is a left fold from \<open>0\<close>.
\<close>

definition calculateWeightedScore :: "string list \<Rightarrow> real \<Rightarrow> jsnum" where
  "calculateWeightedScore encounters multiplier =
     foldl (\<lambda>sum src. js_max0 (js_add sum (points src multiplier))) (Num 0) encounters"

definition KNOWN_THRESHOLD :: real where
  "KNOWN_THRESHOLD = 100"

text \<open>Callers pass \<open>vocab.isTraced ? 2 : 1\<close> as the multiplier.\<close>

definition traceMultiplier :: "bool \<Rightarrow> real" where
  "traceMultiplier traced = (if traced then 2 else 1)"

text \<open>
  The weight table as the specification words it (section 4.1), with the specification's
  tag names mapped to the stored tags: page-scan is \<open>scan\<close>, dictionary-lookup is
  \<open>lookup\<close>, explicit-trace is \<open>trace\<close>, manual-entry is \<open>manual\<close>, bulk-import is
  \<open>import\<close>, wordbank-seed is \<open>wordbank\<close>.
\<close>

definition specWeight :: "string \<Rightarrow> real" where
  "specWeight tag =
     (if tag = ''scan'' then 0.1
      else if tag = ''lookup'' then 1.0
      else if tag = ''trace'' then 1.0
      else if tag = ''manual'' then 2.0
      else if tag = ''import'' then 0.5
      else if tag = ''wordbank'' then 0.1
      else if tag = ''rate_known'' then 5.0
      else if tag = ''rate_familiar'' then 3.0
      else if tag = ''rate_unknown'' then 1.0
      else 0.1)"

section \<open>Strings\<close>

text \<open>
  A string is a list of code units below 256, each read as the Unicode character with
  that number (the ASCII and Latin-1 blocks). On these, \<open>toLowerCase\<close> maps \<open>A\<close>--\<open>Z\<close>
  and the capital letters \<open>U+00C0\<close>--\<open>U+00DE\<close> (without the sign \<open>U+00D7\<close>) to
  the letter 32 places on; the letters of \<open>\p{L}\<close> are the ASCII letters, \<open>U+00AA\<close>,
  \<open>U+00B5\<close>, \<open>U+00BA\<close> and \<open>U+00C0\<close>--\<open>U+00FF\<close> without the signs \<open>U+00D7\<close> and
  \<open>U+00F7\<close>; the numbers of \<open>\p{N}\<close> are the ASCII digits, the superscripts
  \<open>U+00B2\<close>, \<open>U+00B3\<close>, \<open>U+00B9\<close> and the fractions \<open>U+00BC\<close>--\<open>U+00BE\<close>; the
  white space of \<open>trim\<close> and of \<open>\s\<close> is the space, the controls \<open>U+0009\<close>--\<open>U+000D\<close>
  and the no-break space \<open>U+00A0\<close>.
\<close>

definition asciiUpper :: string where
  "asciiUpper = ''ABCDEFGHIJKLMNOPQRSTUVWXYZ''"

definition asciiLower :: string where
  "asciiLower = ''abcdefghijklmnopqrstuvwxyz''"

definition asciiDigits :: string where
  "asciiDigits = ''0123456789''"

definition latinUpper :: string where
  "latinUpper =
     [CHR 0xC0, CHR 0xC1, CHR 0xC2, CHR 0xC3, CHR 0xC4, CHR 0xC5, CHR 0xC6,
      CHR 0xC7, CHR 0xC8, CHR 0xC9, CHR 0xCA, CHR 0xCB, CHR 0xCC, CHR 0xCD,
      CHR 0xCE, CHR 0xCF, CHR 0xD0, CHR 0xD1, CHR 0xD2, CHR 0xD3, CHR 0xD4,
      CHR 0xD5, CHR 0xD6, CHR 0xD8, CHR 0xD9, CHR 0xDA, CHR 0xDB, CHR 0xDC,
      CHR 0xDD, CHR 0xDE]"

definition latinLower :: string where
  "latinLower =
     [CHR 0xE0, CHR 0xE1, CHR 0xE2, CHR 0xE3, CHR 0xE4, CHR 0xE5, CHR 0xE6,
      CHR 0xE7, CHR 0xE8, CHR 0xE9, CHR 0xEA, CHR 0xEB, CHR 0xEC, CHR 0xED,
      CHR 0xEE, CHR 0xEF, CHR 0xF0, CHR 0xF1, CHR 0xF2, CHR 0xF3, CHR 0xF4,
      CHR 0xF5, CHR 0xF6, CHR 0xF8, CHR 0xF9, CHR 0xFA, CHR 0xFB, CHR 0xFC,
      CHR 0xFD, CHR 0xFE]"

text \<open>The Latin-1 letters without a case pair in the block, and the Latin-1 numbers.\<close>

definition latinOtherLetters :: string where
  "latinOtherLetters = [CHR 0xAA, CHR 0xB5, CHR 0xBA, CHR 0xDF, CHR 0xFF]"

definition latinNumbers :: string where
  "latinNumbers = [CHR 0xB2, CHR 0xB3, CHR 0xB9, CHR 0xBC, CHR 0xBD, CHR 0xBE]"

definition toLowerCaseChar :: "char \<Rightarrow> char" where
  "toLowerCaseChar c =
     (case map_of (zip (asciiUpper @ latinUpper) (asciiLower @ latinLower)) c of
        Some l \<Rightarrow> l
      | None \<Rightarrow> c)"

definition isLetterOrNumber :: "char \<Rightarrow> bool" where
  "isLetterOrNumber c =
     (c \<in> set asciiLower \<or> c \<in> set asciiUpper \<or> c \<in> set asciiDigits
      \<or> c \<in> set latinLower \<or> c \<in> set latinUpper \<or> c \<in> set latinOtherLetters
      \<or> c \<in> set latinNumbers)"

definition isWhiteSpace :: "char \<Rightarrow> bool" where
  "isWhiteSpace c =
     (c \<in> set [CHR '' '', CHR 0x09, CHR 0x0A, CHR 0x0B, CHR 0x0C, CHR 0x0D, CHR 0xA0])"

definition jsTrim :: "string \<Rightarrow> string" where
  "jsTrim s = rev (dropWhile isWhiteSpace (rev (dropWhile isWhiteSpace s)))"

text \<open>
  \<open>input.toLowerCase().trim().replace(/^[^\p{L}\p{N}]+|[^\p{L}\p{N}]+$/gu, '')\<close>
\<close>

definition normalizeLemma :: "string \<Rightarrow> string" where
  "normalizeLemma input =
     (let t = jsTrim (map toLowerCaseChar input)
      in rev (dropWhile (\<lambda>c. \<not> isLetterOrNumber c)
                (rev (dropWhile (\<lambda>c. \<not> isLetterOrNumber c) t))))"

text \<open>\<open>VALID_WORD_RE = /^[a-z]{2,}$/\<close>\<close>

definition VALID_WORD_RE :: "string \<Rightarrow> bool" where
  "VALID_WORD_RE w = (2 \<le> length w \<and> list_all (\<lambda>c. c \<in> set asciiLower) w)"

section \<open>Entities and tables (src/background/storage/db.ts)\<close>

text \<open>
  Optional fields are \<open>option\<close>s; an optional boolean keeps \<open>undefined\<close> apart from
  \<open>false\<close>, which \<open>===\<close> tells apart. Timestamps are milliseconds, integers
  below \<open>2^53\<close> as \<open>Date.now()\<close> gives them, which are doubles. The fields
  \<open>dueAt\<close>, \<open>lastReviewDate\<close> and \<open>reviewInterval\<close> of a vocabulary entry are never
  read or written by the operations modelled here and are left out.
\<close>

record VocabEntity =
  vocabId :: string
  v_lemma :: string
  surface :: string
  language :: string
  meaning :: string
  sourceTraceId :: "string option"
  proficiency :: nat
  createdAt :: nat
  updatedAt :: nat
  deletedAt :: "nat option"
  sourceType :: "string option"
  sourceWordbankId :: "string option"
  firstSeenAt :: "nat option"
  lastSeenAt :: "nat option"
  familiarityScore :: "jsnum option"
  nextReviewDate :: "nat option"
  isKnown :: "bool option"
  scoreLocked :: "bool option"
  isTraced :: "bool option"
  noiseManaged :: "bool option"

record EncounterEntity =
  encounterId :: string
  e_vocabId :: string
  e_surface :: string
  normalizedSurface :: string
  pageUrl :: string
  pageHost :: string
  pageTitle :: "string option"
  contextSentence :: "string option"
  source :: string
  e_createdAt :: nat
  e_updatedAt :: nat

record TraceEntity =
  traceId :: string
  sourceText :: string

text \<open>Truthiness of an optional boolean and of an optional timestamp.\<close>

definition truthy :: "bool option \<Rightarrow> bool" where
  "truthy b = (b = Some True)"

definition truthyNum :: "nat option \<Rightarrow> bool" where
  "truthyNum t = (case t of None \<Rightarrow> False | Some n \<Rightarrow> n \<noteq> 0)"

text \<open>
  A table is the list of its rows. \<open>toArray\<close> enumerates the rows in the order of the
  primary key, as the store does; \<open>update\<close> and \<open>delete\<close> act on the row with the
  given key; \<open>add\<close> receives a row whose key \<open>crypto.randomUUID()\<close> has just made.
\<close>

definition tbl_toArray :: "('a \<Rightarrow> string) \<Rightarrow> 'a list \<Rightarrow> 'a list" where
  "tbl_toArray key rows = sort_key key rows"

definition tbl_get :: "('a \<Rightarrow> string) \<Rightarrow> 'a list \<Rightarrow> string \<Rightarrow> 'a option" where
  "tbl_get key rows k = find (\<lambda>r. key r = k) rows"

definition tbl_update :: "('a \<Rightarrow> string) \<Rightarrow> 'a list \<Rightarrow> string \<Rightarrow> ('a \<Rightarrow> 'a) \<Rightarrow> 'a list" where
  "tbl_update key rows k f = map (\<lambda>r. if key r = k then f r else r) rows"

definition tbl_delete :: "('a \<Rightarrow> string) \<Rightarrow> 'a list \<Rightarrow> string \<Rightarrow> 'a list" where
  "tbl_delete key rows k = filter (\<lambda>r. key r \<noteq> k) rows"

definition tbl_add :: "'a list \<Rightarrow> 'a \<Rightarrow> 'a list" where
  "tbl_add rows r = rows @ [r]"

datatype WordbankCode =
  Daily | Programming | Cet4 | Cet6 | Gaokao | Postgrad | Primary | Top10k | Noise | Custom

record WordbankEntity =
  wordbankId :: string
  code :: WordbankCode

record WordbankWordEntity =
  wordId :: string
  w_wordbankId :: string
  w_lemma :: string
  w_surface :: string
  normalized :: string

record UserWordbankEntity =
  userWordbankId :: string
  uw_wordbankId :: string
  enabled :: bool

record LemmaStatEntity =
  lemmaStatId :: string
  ls_lemma :: string
  normalizedLemma :: string
  ls_language :: string
  totalCount :: nat
  pageCount :: nat
  ls_firstSeenAt :: nat
  ls_lastSeenAt :: nat
  lastPageUrl :: "string option"
  lastPageHost :: "string option"
  inWordbank :: bool
  dictRank :: "int option"
  promotedVocabId :: "string option"
  promotedAt :: "nat option"
  promotionReason :: "string option"
  cooldownUntil :: "nat option"
  ls_updatedAt :: nat

text \<open>
  The settings table holds one value per key. The keys the engine reads are the fields
  of this record, \<open>None\<close> for a key that is absent; each value has the type the settings
  handler and the options page give it. \<open>noiseConfigHash\<close> holds the serialised
  configuration of the last noise synchronisation: \<open>JSON.stringify\<close> of the noise
  wordbank id and the two sorted manual lists, kept here as that triple.
\<close>

type_synonym cfgKey = "string \<times> string list \<times> string list"

record Settings =
  noiseWordbankId :: "string option"
  noiseManualAdd :: "string list option"
  noiseManualRemove :: "string list option"
  noiseConfigHash :: "cfgKey option"
  promotionMinCount :: "real option"
  promotionMinPages :: "real option"
  environmentRankThreshold :: "real option"
  autoTraceEnabled :: "bool option"
  autoTracePoolSize :: "real option"
  autoTraceMinEncounters :: "real option"

record db =
  vocabulary :: "VocabEntity list"
  encounters :: "EncounterEntity list"
  traces :: "TraceEntity list"
  settings :: Settings
  wordbanks :: "WordbankEntity list"
  wordbankWords :: "WordbankWordEntity list"
  userWordbanks :: "UserWordbankEntity list"
  lemmaStats :: "LemmaStatEntity list"

datatype ErrorCode = VALIDATION_ERROR | NOT_FOUND | INTERNAL_ERROR

datatype AppError = AppError ErrorCode string

text \<open>\<open>db.vocabulary.get(id)\<close>, \<open>db.vocabulary.update(id, changes)\<close>\<close>

definition getVocab :: "db \<Rightarrow> string \<Rightarrow> VocabEntity option" where
  "getVocab d vid = tbl_get vocabId (vocabulary d) vid"

definition updateVocab :: "db \<Rightarrow> string \<Rightarrow> (VocabEntity \<Rightarrow> VocabEntity) \<Rightarrow> db" where
  "updateVocab d vid f = d\<lparr>vocabulary := tbl_update vocabId (vocabulary d) vid f\<rparr>"

text \<open>\<open>db.encounters.where('vocabId').equals(vid).toArray()\<close>\<close>

definition encountersOf :: "db \<Rightarrow> string \<Rightarrow> EncounterEntity list" where
  "encountersOf d vid =
     filter (\<lambda>e. e_vocabId e = vid) (tbl_toArray encounterId (encounters d))"

text \<open>\<open>db.vocabulary.where('[lemma+language]').equals([l, lang]).first()\<close>\<close>

definition vocabByLemma :: "db \<Rightarrow> string \<Rightarrow> string \<Rightarrow> VocabEntity option" where
  "vocabByLemma d l lang =
     find (\<lambda>v. v_lemma v = l \<and> language v = lang) (tbl_toArray vocabId (vocabulary d))"

section \<open>Vocabulary handlers (src/background/router/handlers/vocab.ts)\<close>

definition recalcVocabScore :: "db \<Rightarrow> string \<Rightarrow> nat \<Rightarrow> db" where
  "recalcVocabScore d vid now =
     (case getVocab d vid of
        None \<Rightarrow> d
      | Some vocab \<Rightarrow>
          if truthyNum (deletedAt vocab) \<or> truthy (scoreLocked vocab) then d
          else
            let allEnc = encountersOf d vid;
                score = calculateWeightedScore (map source allEnc)
                          (traceMultiplier (truthy (isTraced vocab)))
            in updateVocab d vid
                 (\<lambda>v. v\<lparr>familiarityScore := Some score,
                         isKnown := Some (js_ge score KNOWN_THRESHOLD),
                         updatedAt := now\<rparr>))"

definition getActiveTraceCount :: "db \<Rightarrow> nat" where
  "getActiveTraceCount d =
     (let traced = filter (\<lambda>v. isTraced v = Some True \<and> \<not> truthy (isKnown v))
                     (tbl_toArray vocabId (vocabulary d))
      in length (filter (\<lambda>v. js_lt (calculateWeightedScore
                                       (map source (encountersOf d (vocabId v))) 2)
                                    KNOWN_THRESHOLD) traced))"

definition resetNoiseWordFields :: "db \<Rightarrow> string \<Rightarrow> nat \<Rightarrow> db" where
  "resetNoiseWordFields d vid now =
     updateVocab d vid
       (\<lambda>v. v\<lparr>scoreLocked := Some False, familiarityScore := Some (Num 0),
               isKnown := Some False, noiseManaged := Some False, updatedAt := now\<rparr>)"

text \<open>
  \<open>handleRateWord\<close>. The payload's \<open>vocabId\<close> is falsy when absent or empty; the id of
  the new encounter is the one \<open>crypto.randomUUID()\<close> returns, the time that of
  \<open>Date.now()\<close>. The result is \<open>(vocabId, newScore, isKnown)\<close>.
\<close>

definition handleRateWord ::
  "db \<Rightarrow> string option \<Rightarrow> string \<Rightarrow> string \<Rightarrow> nat
   \<Rightarrow> (AppError + string \<times> jsnum \<times> bool) \<times> db" where
  "handleRateWord d pVocabId rating newId now =
     (case pVocabId of
        None \<Rightarrow> (Inl (AppError VALIDATION_ERROR ''vocabId is required''), d)
      | Some vid \<Rightarrow>
          if vid = [] then (Inl (AppError VALIDATION_ERROR ''vocabId is required''), d)
          else
            (case getVocab d vid of
               None \<Rightarrow> (Inl (AppError NOT_FOUND ''vocabulary not found''), d)
             | Some vocab \<Rightarrow>
                 if truthy (scoreLocked vocab)
                 then (Inl (AppError VALIDATION_ERROR ''cannot rate a score-locked word''), d)
                 else
                   let enc = \<lparr>encounterId = newId, e_vocabId = vid,
                              e_surface = surface vocab, normalizedSurface = v_lemma vocab,
                              pageUrl = [], pageHost = [], pageTitle = None,
                              contextSentence = None, source = ''rate_'' @ rating,
                              e_createdAt = now, e_updatedAt = now\<rparr>;
                       d1 = d\<lparr>encounters := tbl_add (encounters d) enc\<rparr>;
                       newScore = calculateWeightedScore (map source (encountersOf d1 vid))
                                    (traceMultiplier (truthy (isTraced vocab)));
                       known = js_ge newScore KNOWN_THRESHOLD;
                       d2 = updateVocab d1 vid
                              (\<lambda>v. v\<lparr>familiarityScore := Some newScore,
                                      isKnown := Some known, updatedAt := now\<rparr>)
                   in (Inr (vid, newScore, known), d2)))"

definition handleUnlockNoiseWord ::
  "db \<Rightarrow> string option \<Rightarrow> nat \<Rightarrow> (AppError + string) \<times> db" where
  "handleUnlockNoiseWord d pVocabId now =
     (case pVocabId of
        None \<Rightarrow> (Inl (AppError VALIDATION_ERROR ''vocabId is required''), d)
      | Some vid \<Rightarrow>
          if vid = [] then (Inl (AppError VALIDATION_ERROR ''vocabId is required''), d)
          else
            (case getVocab d vid of
               None \<Rightarrow> (Inl (AppError NOT_FOUND ''vocabulary not found''), d)
             | Some vocab \<Rightarrow>
                 if \<not> truthy (scoreLocked vocab)
                 then (Inl (AppError VALIDATION_ERROR ''word is not locked''), d)
                 else (Inr vid, resetNoiseWordFields d vid now)))"

text \<open>\<open>handleToggleTraceWord\<close>; the result is \<open>(vocabId, isTraced, activeTraceCount)\<close>.\<close>

definition handleToggleTraceWord ::
  "db \<Rightarrow> string option \<Rightarrow> bool \<Rightarrow> nat \<Rightarrow> (AppError + string \<times> bool \<times> nat) \<times> db" where
  "handleToggleTraceWord d pVocabId traced now =
     (case pVocabId of
        None \<Rightarrow> (Inl (AppError VALIDATION_ERROR ''vocabId is required''), d)
      | Some vid \<Rightarrow>
          if vid = [] then (Inl (AppError VALIDATION_ERROR ''vocabId is required''), d)
          else
            (case getVocab d vid of
               None \<Rightarrow> (Inl (AppError NOT_FOUND ''vocabulary not found''), d)
             | Some vocab \<Rightarrow>
                 if isTraced vocab = Some traced
                 then (Inr (vid, traced, getActiveTraceCount d), d)
                 else
                   let newScore = calculateWeightedScore (map source (encountersOf d vid))
                                    (traceMultiplier traced);
                       known = js_ge newScore KNOWN_THRESHOLD;
                       d1 = updateVocab d vid
                              (\<lambda>v. v\<lparr>isTraced := Some traced,
                                      familiarityScore := Some newScore,
                                      isKnown := Some known, updatedAt := now\<rparr>)
                   in (Inr (vid, traced, getActiveTraceCount d1), d1)))"

text \<open>
  \<open>handleUpsertVocab\<close>. \<open>a || b\<close> on an optional string takes \<open>b\<close> when \<open>a\<close> is
  absent or empty; \<open>a ?? b\<close> takes \<open>b\<close> only when \<open>a\<close> is absent.
\<close>

definition strOr :: "string option \<Rightarrow> string \<Rightarrow> string" where
  "strOr a b = (case a of None \<Rightarrow> b | Some x \<Rightarrow> if x = [] then b else x)"

record UpsertVocabPayload =
  u_vocabId :: "string option"
  u_lemma :: "string option"
  u_surface :: "string option"
  u_language :: "string option"
  u_meaning :: "string option"
  u_proficiency :: "nat option"
  u_sourceTraceId :: "string option"

definition tbl_put :: "('a \<Rightarrow> string) \<Rightarrow> 'a list \<Rightarrow> 'a \<Rightarrow> 'a list" where
  "tbl_put key rows r =
     (if list_ex (\<lambda>x. key x = key r) rows
      then map (\<lambda>x. if key x = key r then r else x) rows
      else rows @ [r])"

definition handleUpsertVocab ::
  "db \<Rightarrow> UpsertVocabPayload \<Rightarrow> string \<Rightarrow> nat \<Rightarrow> (AppError + VocabEntity) \<times> db" where
  "handleUpsertVocab d data newId now =
     (if jsTrim (strOr (u_lemma data) []) = []
      then (Inl (AppError VALIDATION_ERROR ''lemma is required''), d)
      else
        let lem = normalizeLemma (strOr (u_lemma data) []);
            lang = strOr (u_language data) ''en'';
            existing = (case u_vocabId data of
                          None \<Rightarrow> None
                        | Some vid \<Rightarrow> if vid = [] then None else getVocab d vid)
        in case existing of
             Some ex \<Rightarrow>
               let updated = ex\<lparr>surface := (case u_surface data of None \<Rightarrow> surface ex | Some x \<Rightarrow> x),
                                language := (case u_language data of None \<Rightarrow> language ex | Some x \<Rightarrow> x),
                                meaning := (case u_meaning data of None \<Rightarrow> meaning ex | Some x \<Rightarrow> x),
                                proficiency := (case u_proficiency data of None \<Rightarrow> proficiency ex | Some x \<Rightarrow> x),
                                sourceTraceId := (case u_sourceTraceId data of None \<Rightarrow> sourceTraceId ex | Some x \<Rightarrow> Some x),
                                v_lemma := lem, updatedAt := now\<rparr>
               in (Inr updated, d\<lparr>vocabulary := tbl_put vocabId (vocabulary d) updated\<rparr>)
           | None \<Rightarrow>
               (case vocabByLemma d lem lang of
                  Some found \<Rightarrow>
                    let updated = found\<lparr>surface := strOr (u_surface data) (surface found),
                                         meaning := (case u_meaning data of None \<Rightarrow> meaning found | Some x \<Rightarrow> x),
                                         proficiency := (case u_proficiency data of None \<Rightarrow> proficiency found | Some x \<Rightarrow> x),
                                         updatedAt := now\<rparr>
                    in (Inr updated, d\<lparr>vocabulary := tbl_put vocabId (vocabulary d) updated\<rparr>)
                | None \<Rightarrow>
                    let vocab = \<lparr>vocabId = newId, v_lemma = lem,
                                 surface = strOr (u_surface data) (strOr (u_lemma data) []),
                                 language = lang,
                                 meaning = strOr (u_meaning data) [],
                                 sourceTraceId = u_sourceTraceId data,
                                 proficiency = (case u_proficiency data of None \<Rightarrow> 0 | Some x \<Rightarrow> x),
                                 createdAt = now, updatedAt = now, deletedAt = None,
                                 sourceType = None, sourceWordbankId = None,
                                 firstSeenAt = None, lastSeenAt = None,
                                 familiarityScore = None, nextReviewDate = None,
                                 isKnown = None, scoreLocked = None, isTraced = None,
                                 noiseManaged = None\<rparr>
                    in (Inr vocab, d\<lparr>vocabulary := tbl_add (vocabulary d) vocab\<rparr>)))"

section \<open>Encounter handlers (src/background/router/handlers/encounters.ts)\<close>

record RecordEncounterPayload =
  p_vocabId :: "string option"
  p_word :: "string option"
  p_language :: "string option"
  p_pageUrl :: "string option"
  p_pageTitle :: "string option"
  p_contextSentence :: "string option"
  p_source :: "string option"

text \<open>
  The first part of \<open>handleRecordEncounter\<close>: the vocabulary entry the encounter belongs
  to and the surface form, found by id or made by \<open>handleUpsertVocab\<close>.
\<close>

definition resolveVocab ::
  "db \<Rightarrow> RecordEncounterPayload \<Rightarrow> string \<Rightarrow> nat \<Rightarrow> AppError + (string \<times> string \<times> db)" where
  "resolveVocab d data newVocabId now =
     (if strOr (p_vocabId data) [] = []
      then
        if jsTrim (strOr (p_word data) []) = []
        then Inl (AppError VALIDATION_ERROR ''word or vocabId is required'')
        else
          (case handleUpsertVocab d
                  \<lparr>u_vocabId = None,
                   u_lemma = Some (normalizeLemma (strOr (p_word data) [])),
                   u_surface = p_word data,
                   u_language = Some (strOr (p_language data) ''en''),
                   u_meaning = None, u_proficiency = None, u_sourceTraceId = None\<rparr>
                  newVocabId now of
             (Inl e, d1) \<Rightarrow> Inl e
           | (Inr vocab, d1) \<Rightarrow> Inr (vocabId vocab, surface vocab, d1))
      else
        (case getVocab d (strOr (p_vocabId data) []) of
           None \<Rightarrow> Inl (AppError NOT_FOUND ''vocabulary not found'')
         | Some vocab \<Rightarrow>
             if truthyNum (deletedAt vocab)
             then Inl (AppError NOT_FOUND ''vocabulary not found'')
             else Inr (strOr (p_vocabId data) [],
                       strOr (p_word data) (strOr (Some (surface vocab)) (v_lemma vocab)),
                       d)))"

text \<open>
  The 24-hour de-duplication of \<open>handleRecordEncounter\<close>: for a payload source of
  \<open>scan\<close>, \<open>lookup\<close> or \<open>wordbank\<close>, the first encounter of the entry on the same
  page with the same source that is less than a day old.
\<close>

definition recentEncounter ::
  "db \<Rightarrow> string \<Rightarrow> RecordEncounterPayload \<Rightarrow> nat \<Rightarrow> EncounterEntity option" where
  "recentEncounter d vid data now =
     (if p_source data = Some ''scan'' \<or> p_source data = Some ''lookup''
         \<or> p_source data = Some ''wordbank''
      then find (\<lambda>e. pageUrl e = strOr (p_pageUrl data) []
                     \<and> Some (source e) = p_source data
                     \<and> int now - 24 * 60 * 60 * 1000 < int (e_createdAt e))
             (encountersOf d vid)
      else None)"

text \<open>The last block of \<open>handleRecordEncounter\<close>: auto-unlock after two lookups.\<close>

definition autoUnlock :: "db \<Rightarrow> string \<Rightarrow> string \<Rightarrow> nat \<Rightarrow> db" where
  "autoUnlock d src vid now =
     (if src = ''lookup''
      then
        (case getVocab d vid of
           None \<Rightarrow> d
         | Some vocab \<Rightarrow>
             if truthy (scoreLocked vocab)
                \<and> 2 \<le> length (filter (\<lambda>e. source e = ''lookup'') (encountersOf d vid))
             then resetNoiseWordFields d vid now
             else d)
      else d)"

text \<open>
  \<open>handleRecordEncounter\<close>. \<open>urlHost\<close> is \<open>new URL(u).host\<close>, \<open>None\<close> where the
  constructor throws. An error raised after \<open>handleUpsertVocab\<close> has written leaves that
  write in place, so the state is returned with the error.
\<close>

definition handleRecordEncounter ::
  "(string \<Rightarrow> string option) \<Rightarrow> db \<Rightarrow> RecordEncounterPayload \<Rightarrow> string \<Rightarrow> string \<Rightarrow> nat
   \<Rightarrow> (AppError + EncounterEntity) \<times> db" where
  "handleRecordEncounter urlHost d data newVocabId newEncId now =
     (if jsTrim (strOr (p_pageUrl data) []) = []
      then (Inl (AppError VALIDATION_ERROR ''pageUrl is required''), d)
      else
        case resolveVocab d data newVocabId now of
          Inl e \<Rightarrow> (Inl e, d)
        | Inr (vid, surf, d1) \<Rightarrow>
            (case urlHost (strOr (p_pageUrl data) []) of
               None \<Rightarrow> (Inl (AppError VALIDATION_ERROR ''invalid pageUrl''), d1)
             | Some host \<Rightarrow>
                 (case recentEncounter d1 vid data now of
                    Some r \<Rightarrow>
                      (Inr r, d1\<lparr>encounters := tbl_update encounterId (encounters d1)
                                                 (encounterId r) (\<lambda>e. e\<lparr>e_updatedAt := now\<rparr>)\<rparr>)
                  | None \<Rightarrow>
                      let encounter =
                            \<lparr>encounterId = newEncId, e_vocabId = vid, e_surface = surf,
                             normalizedSurface = normalizeLemma surf,
                             pageUrl = strOr (p_pageUrl data) [], pageHost = host,
                             pageTitle = p_pageTitle data,
                             contextSentence = p_contextSentence data,
                             source = strOr (p_source data) ''scan'',
                             e_createdAt = now, e_updatedAt = now\<rparr>;
                          d2 = d1\<lparr>encounters := tbl_add (encounters d1) encounter\<rparr>;
                          d3 = recalcVocabScore d2 vid now
                      in (Inr encounter, autoUnlock d3 (source encounter) vid now))))"

definition cleanupOrphanedVocab :: "db \<Rightarrow> string \<Rightarrow> bool \<times> db" where
  "cleanupOrphanedVocab d vid =
     (if length (encountersOf d vid) = 0
      then (True, d\<lparr>vocabulary := tbl_delete vocabId (vocabulary d) vid\<rparr>)
      else (False, d))"

text \<open>\<open>handleDeleteEncounter\<close>; the result is \<open>vocabDeleted\<close>, absent when there was no such encounter.\<close>

definition handleDeleteEncounter ::
  "db \<Rightarrow> string option \<Rightarrow> nat \<Rightarrow> (AppError + bool option) \<times> db" where
  "handleDeleteEncounter d pEncounterId now =
     (if strOr pEncounterId [] = []
      then (Inl (AppError VALIDATION_ERROR ''encounterId is required''), d)
      else
        case tbl_get encounterId (encounters d) (strOr pEncounterId []) of
          None \<Rightarrow> (Inr None, d)
        | Some encounter \<Rightarrow>
            let d1 = d\<lparr>encounters := tbl_delete encounterId (encounters d) (strOr pEncounterId [])\<rparr>;
                (vocabDeleted, d2) = cleanupOrphanedVocab d1 (e_vocabId encounter)
            in if vocabDeleted then (Inr (Some True), d2)
               else
                 let lem = normalizeLemma (strOr (Some (normalizedSurface encounter))
                                                 (e_surface encounter));
                     d3 = (if source encounter = ''trace''
                              \<and> find (\<lambda>t. normalizeLemma (sourceText t) = lem)
                                    (tbl_toArray traceId (traces d2)) = None
                           then updateVocab d2 (e_vocabId encounter)
                                  (\<lambda>v. v\<lparr>isTraced := Some False, updatedAt := now\<rparr>)
                           else d2)
                 in (Inr (Some False), recalcVocabScore d3 (e_vocabId encounter) now))"

section \<open>Noise-word reconciliation (src/background/storage/db.ts)\<close>

text \<open>A JavaScript \<open>Set\<close> keeps each member once, in the order of first insertion.\<close>

definition firstOccurrences :: "string list \<Rightarrow> string list" where
  "firstOccurrences xs = rev (remdups (rev xs))"

definition toLemmaSet :: "string list option \<Rightarrow> string list" where
  "toLemmaSet v =
     (case v of
        None \<Rightarrow> []
      | Some xs \<Rightarrow> firstOccurrences (filter (\<lambda>l. l \<noteq> []) (map normalizeLemma xs)))"

definition noiseCfgKey :: "Settings \<Rightarrow> cfgKey" where
  "noiseCfgKey st =
     (strOr (noiseWordbankId st) [],
      sort (toLemmaSet (noiseManualAdd st)),
      sort (toLemmaSet (noiseManualRemove st)))"

text \<open>
  The noise target set: the words of the noise wordbank, then the manual additions,
  without the manual removals.
\<close>

definition noiseTarget :: "db \<Rightarrow> string \<Rightarrow> string list \<Rightarrow> string list \<Rightarrow> string list" where
  "noiseTarget d noiseSource manualAdd manualRemove =
     (let words = (if noiseSource = [] then []
                   else filter (\<lambda>w. w_wordbankId w = noiseSource)
                          (tbl_toArray wordId (wordbankWords d)))
      in filter (\<lambda>l. l \<notin> set manualRemove)
           (firstOccurrences (map (\<lambda>w. normalizeLemma (w_lemma w)) words @ manualAdd)))"

text \<open>
  The two loops of \<open>syncNoiseWordsFromSettings\<close>. Each carries the number of writes
  issued so far; the second also counts the calls of \<open>crypto.randomUUID()\<close>, whose
  \<open>k\<close>-th result is \<open>uuid k\<close>.
\<close>

definition unlockStep :: "string list \<Rightarrow> nat \<Rightarrow> db \<times> nat \<Rightarrow> VocabEntity \<Rightarrow> db \<times> nat" where
  "unlockStep target now acc v =
     (if v_lemma v \<notin> set target \<or> truthy (isTraced v)
      then (updateVocab (fst acc) (vocabId v)
              (\<lambda>x. x\<lparr>scoreLocked := Some False,
                      familiarityScore :=
                        Some (if truthy (isTraced v)
                              then (case familiarityScore v of None \<Rightarrow> Num 0 | Some n \<Rightarrow> n)
                              else Num 0),
                      isKnown := Some False, noiseManaged := Some False,
                      updatedAt := now\<rparr>),
            snd acc + 1)
      else acc)"

definition lockStep ::
  "(nat \<Rightarrow> string) \<Rightarrow> nat \<Rightarrow> db \<times> nat \<times> nat \<Rightarrow> string \<Rightarrow> db \<times> nat \<times> nat" where
  "lockStep uuid now acc l =
     (case acc of (d, w, k) \<Rightarrow>
        (case vocabByLemma d l ''en'' of
           Some existing \<Rightarrow>
             if truthy (isTraced existing) then (d, w, k)
             else (updateVocab d (vocabId existing)
                     (\<lambda>x. x\<lparr>scoreLocked := Some True, familiarityScore := Some (Num 100),
                             isKnown := Some True, noiseManaged := Some True,
                             updatedAt := now\<rparr>),
                   w + 1, k)
         | None \<Rightarrow>
             (d\<lparr>vocabulary := tbl_add (vocabulary d)
                   \<lparr>vocabId = uuid k, v_lemma = l, surface = l, language = ''en'',
                    meaning = [], sourceTraceId = None, proficiency = 0,
                    createdAt = now, updatedAt = now, deletedAt = None,
                    sourceType = None, sourceWordbankId = None,
                    firstSeenAt = None, lastSeenAt = None,
                    familiarityScore = Some (Num 100), nextReviewDate = None,
                    isKnown = Some True, scoreLocked = Some True, isTraced = None,
                    noiseManaged = Some True\<rparr>\<rparr>,
              w + 1, Suc k)))"

text \<open>\<open>syncNoiseWordsFromSettings(force)\<close>: the new state and the number of writes.\<close>

definition syncNoiseWordsFromSettings ::
  "(nat \<Rightarrow> string) \<Rightarrow> nat \<Rightarrow> bool \<Rightarrow> db \<Rightarrow> db \<times> nat" where
  "syncNoiseWordsFromSettings uuid now force d =
     (let noiseSource = strOr (noiseWordbankId (settings d)) [];
          manualAdd = toLemmaSet (noiseManualAdd (settings d));
          manualRemove = toLemmaSet (noiseManualRemove (settings d));
          cfgKey = noiseCfgKey (settings d)
      in if \<not> force \<and> noiseConfigHash (settings d) = Some cfgKey then (d, 0)
         else
           let target = noiseTarget d noiseSource manualAdd manualRemove;
               managedLocked = filter (\<lambda>v. scoreLocked v = Some True \<and> noiseManaged v = Some True)
                                 (tbl_toArray vocabId (vocabulary d));
               (d1, w1) = foldl (unlockStep target now) (d, 0) managedLocked;
               (d2, w2, k) = foldl (lockStep uuid now) (d1, w1, 0) target
           in (d2\<lparr>settings := (settings d2)\<lparr>noiseConfigHash := Some cfgKey\<rparr>\<rparr>, w2 + 1))"

definition msPerDay :: real where
  "msPerDay = 24 * 60 * 60 * 1000"

section \<open>Enabled wordbank words (getEnabledWordbankWords in wordbanks.ts)\<close>

fun WORDBANK_SELECTION_PRIORITY :: "WordbankCode \<Rightarrow> nat" where
  "WORDBANK_SELECTION_PRIORITY Daily = 10"
| "WORDBANK_SELECTION_PRIORITY Programming = 20"
| "WORDBANK_SELECTION_PRIORITY Cet4 = 30"
| "WORDBANK_SELECTION_PRIORITY Cet6 = 40"
| "WORDBANK_SELECTION_PRIORITY Gaokao = 50"
| "WORDBANK_SELECTION_PRIORITY Postgrad = 60"
| "WORDBANK_SELECTION_PRIORITY Primary = 70"
| "WORDBANK_SELECTION_PRIORITY Top10k = 80"
| "WORDBANK_SELECTION_PRIORITY Custom = 90"
| "WORDBANK_SELECTION_PRIORITY Noise = 100"

definition shouldPreferWordbank ::
  "string \<Rightarrow> string \<Rightarrow> (string \<Rightarrow> WordbankCode option) \<Rightarrow> bool" where
  "shouldPreferWordbank candidateId currentId codeById =
     (let candidatePriority = WORDBANK_SELECTION_PRIORITY
                                (case codeById candidateId of None \<Rightarrow> Custom | Some c \<Rightarrow> c);
          currentPriority = WORDBANK_SELECTION_PRIORITY
                              (case codeById currentId of None \<Rightarrow> Custom | Some c \<Rightarrow> c)
      in if candidatePriority \<noteq> currentPriority then candidatePriority < currentPriority
         else candidateId < currentId)"

text \<open>
  A JavaScript \<open>Map\<close> is a list of key-value pairs in insertion order; \<open>set\<close> on a
  present key replaces the value in place.
\<close>

definition mapSet :: "('k \<times> 'v) list \<Rightarrow> 'k \<Rightarrow> 'v \<Rightarrow> ('k \<times> 'v) list" where
  "mapSet m k v =
     (if k \<in> set (map fst m) then map (\<lambda>kv. if fst kv = k then (k, v) else kv) m
      else m @ [(k, v)])"

record WbWord =
  wb_wordbankId :: string
  wb_lemma :: string
  wb_surface :: string
  sourceWordbankIds :: "string list"

definition addWordbankWord ::
  "(string \<Rightarrow> WordbankCode option) \<Rightarrow> (string \<times> WbWord) list \<Rightarrow> WordbankWordEntity
   \<Rightarrow> (string \<times> WbWord) list" where
  "addWordbankWord codeById m w =
     (case map_of m (normalized w) of
        None \<Rightarrow>
          m @ [(normalized w,
                \<lparr>wb_wordbankId = w_wordbankId w, wb_lemma = w_lemma w,
                 wb_surface = w_surface w, sourceWordbankIds = [w_wordbankId w]\<rparr>)]
      | Some existing \<Rightarrow>
          let e1 = (if w_wordbankId w \<in> set (sourceWordbankIds existing) then existing
                    else existing\<lparr>sourceWordbankIds :=
                                     sourceWordbankIds existing @ [w_wordbankId w]\<rparr>);
              e2 = (if shouldPreferWordbank (w_wordbankId w) (wb_wordbankId e1) codeById
                    then e1\<lparr>wb_wordbankId := w_wordbankId w, wb_lemma := w_lemma w,
                            wb_surface := w_surface w\<rparr>
                    else e1)
          in mapSet m (normalized w) e2)"

text \<open>The words of the wordbanks come in the order of the \<open>wordbankId\<close> index.\<close>

definition getEnabledWordbankWords :: "db \<Rightarrow> (string \<times> WbWord) list" where
  "getEnabledWordbankWords d =
     (let enabledIds = map uw_wordbankId
                         (filter enabled (tbl_toArray userWordbankId (userWordbanks d)))
      in if enabledIds = [] then []
         else
           let codeById = map_of (map (\<lambda>wb. (wordbankId wb, code wb))
                                    (filter (\<lambda>wb. wordbankId wb \<in> set enabledIds)
                                       (tbl_toArray wordbankId (wordbanks d))));
               ws = filter (\<lambda>w. w_wordbankId w \<in> set enabledIds)
                      (sort_key (\<lambda>w. (w_wordbankId w, wordId w)) (wordbankWords d))
           in foldl (addWordbankWord codeById) [] ws)"

section \<open>The dictionary (src/background/storage/dictionary.ts)\<close>

text \<open>
  The dictionary service holds a map from normalised lemma to entry, loaded from a file
  of the extension; the loaded map is a parameter \<open>dict\<close> of the scan.
\<close>

record DictEntry =
  d_lemma :: string
  d_rank :: int

definition dictLookup :: "(string \<Rightarrow> DictEntry option) \<Rightarrow> string \<Rightarrow> DictEntry option" where
  "dictLookup dict l = dict (normalizeLemma l)"

section \<open>Page scan (handleScanPageWords)\<close>

text \<open>The separators of \<open>tokenize\<close>: white space and \<open>,.;:!?()[]{}"'`~<>/|+-=_*&#@\<close>.\<close>

definition isSeparator :: "char \<Rightarrow> bool" where
  "isSeparator c =
     (isWhiteSpace c
      \<or> c \<in> set [CHR '','', CHR ''.'', CHR '';'', CHR '':'', CHR ''!'', CHR ''?'', CHR ''('',
                  CHR '')'', CHR ''['', CHR '']'', CHR ''{'', CHR ''}'', CHR 0x22, CHR 0x27,
                  CHR 0x60, CHR ''~'', CHR ''<'', CHR ''>'', CHR ''/'', CHR ''|'', CHR ''+'',
                  CHR ''-'', CHR ''='', CHR ''_'', CHR ''*'', CHR ''&'', CHR ''#'', CHR ''@''])"

fun splitOn :: "(char \<Rightarrow> bool) \<Rightarrow> string \<Rightarrow> string list" where
  "splitOn sep [] = [[]]"
| "splitOn sep (c # cs) =
     (if sep c then [] # splitOn sep cs
      else (case splitOn sep cs of [] \<Rightarrow> [[c]] | w # ws \<Rightarrow> (c # w) # ws))"

definition tokenize :: "string \<Rightarrow> string list" where
  "tokenize text =
     filter (\<lambda>s. s \<noteq> []) (map jsTrim (splitOn isSeparator (map toLowerCaseChar text)))"

record ScanPageWordsPayload =
  s_pageUrl :: "string option"
  s_pageTitle :: "string option"
  s_language :: "string option"
  s_tokens :: "string list option"
  s_textContent :: "string option"
  s_sentences :: "string list option"
  s_record :: "bool option"

definition scanTokens :: "ScanPageWordsPayload \<Rightarrow> string list" where
  "scanTokens data =
     (case s_sentences data of
        Some (x # xs) \<Rightarrow> concat (map tokenize (x # xs))
      | _ \<Rightarrow>
          (case s_tokens data of
             Some (t # ts) \<Rightarrow> t # ts
           | _ \<Rightarrow> (case s_textContent data of
                      Some (c # cs) \<Rightarrow> tokenize (c # cs)
                    | _ \<Rightarrow> [])))"

text \<open>The normalised token frequency map.\<close>

definition countTokens :: "string list \<Rightarrow> (string \<times> nat) list" where
  "countTokens tokens =
     foldl (\<lambda>m t. let n = normalizeLemma t
                   in if n = [] then m
                      else mapSet m n ((case map_of m n of None \<Rightarrow> 0 | Some c \<Rightarrow> c) + 1))
       [] tokens"

text \<open>The settings of the scan with their defaults.\<close>

definition promotionMinCountOf :: "Settings \<Rightarrow> real" where
  "promotionMinCountOf st = (case promotionMinCount st of None \<Rightarrow> 6 | Some x \<Rightarrow> x)"

definition promotionMinPagesOf :: "Settings \<Rightarrow> real" where
  "promotionMinPagesOf st = (case promotionMinPages st of None \<Rightarrow> 3 | Some x \<Rightarrow> x)"

definition environmentRankThresholdOf :: "Settings \<Rightarrow> real" where
  "environmentRankThresholdOf st =
     (case environmentRankThreshold st of None \<Rightarrow> 2000 | Some x \<Rightarrow> x)"

definition scanNoiseWordbankId :: "Settings \<Rightarrow> string" where
  "scanNoiseWordbankId st = (case noiseWordbankId st of None \<Rightarrow> ''wb_primary'' | Some x \<Rightarrow> x)"

text \<open>Layer 0, the dictionary gate.\<close>

definition qualifiedTokens ::
  "(string \<Rightarrow> DictEntry option) \<Rightarrow> string list \<Rightarrow> real \<Rightarrow> (string \<times> nat) list
   \<Rightarrow> (string \<times> nat) list" where
  "qualifiedTokens dict wordbankSet rankThreshold tokenMap =
     filter (\<lambda>(n, c). VALID_WORD_RE n
                       \<and> (n \<in> set wordbankSet
                           \<or> (case dictLookup dict n of
                                 None \<Rightarrow> False
                               | Some entry \<Rightarrow> rankThreshold \<le> real_of_int (d_rank entry))))
       tokenMap"

text \<open>
  The batch upsert of the lemma statistics. \<open>statsByLemma\<close> is the list of the
  statistics of the qualified tokens in the order of the map: those already stored, in
  the order of the \<open>normalizedLemma\<close> index, then the new ones. The accumulator carries
  the number of ids drawn so far.
\<close>

definition existingStats :: "db \<Rightarrow> string list \<Rightarrow> LemmaStatEntity list" where
  "existingStats d ks =
     filter (\<lambda>s. normalizedLemma s \<in> set ks) (sort_key normalizedLemma (lemmaStats d))"

definition aggregateStep ::
  "(string \<Rightarrow> DictEntry option) \<Rightarrow> string list \<Rightarrow> (nat \<Rightarrow> string) \<Rightarrow> string \<Rightarrow> string
   \<Rightarrow> string option \<Rightarrow> nat \<Rightarrow> LemmaStatEntity list \<times> nat \<Rightarrow> string \<times> nat
   \<Rightarrow> LemmaStatEntity list \<times> nat" where
  "aggregateStep dict wordbankSet uuid url host lang now acc tok =
     (case acc of (stats, k) \<Rightarrow>
        (case tok of (n, c) \<Rightarrow>
           (case find (\<lambda>s. normalizedLemma s = n) stats of
              Some existing \<Rightarrow>
                (map (\<lambda>s. if normalizedLemma s = n
                          then s\<lparr>totalCount := totalCount s + c,
                                 pageCount := (if lastPageUrl s \<noteq> Some url
                                               then pageCount s + 1 else pageCount s),
                                 ls_lastSeenAt := now, lastPageUrl := Some url,
                                 lastPageHost := Some host,
                                 inWordbank := (n \<in> set wordbankSet),
                                 dictRank := map_option d_rank (dictLookup dict n),
                                 ls_updatedAt := now\<rparr>
                          else s) stats,
                 k)
            | None \<Rightarrow>
                (stats @
                 [\<lparr>lemmaStatId = uuid k,
                   ls_lemma = (case dictLookup dict n of None \<Rightarrow> n | Some e \<Rightarrow> d_lemma e),
                   normalizedLemma = n,
                   ls_language = (case lang of None \<Rightarrow> ''en'' | Some l \<Rightarrow> l),
                   totalCount = c, pageCount = 1, ls_firstSeenAt = now, ls_lastSeenAt = now,
                   lastPageUrl = Some url, lastPageHost = Some host,
                   inWordbank = (n \<in> set wordbankSet),
                   dictRank = map_option d_rank (dictLookup dict n),
                   promotedVocabId = None, promotedAt = None, promotionReason = None,
                   cooldownUntil = None, ls_updatedAt = now\<rparr>],
                 Suc k))))"

definition aggregateStats ::
  "(string \<Rightarrow> DictEntry option) \<Rightarrow> string list \<Rightarrow> (nat \<Rightarrow> string) \<Rightarrow> string \<Rightarrow> string
   \<Rightarrow> string option \<Rightarrow> nat \<Rightarrow> db \<Rightarrow> (string \<times> nat) list \<Rightarrow> nat
   \<Rightarrow> db \<times> LemmaStatEntity list \<times> nat" where
  "aggregateStats dict wordbankSet uuid url host lang now d qualified k =
     (case foldl (aggregateStep dict wordbankSet uuid url host lang now)
             (existingStats d (map fst qualified), k) qualified of
        (stats, k1) \<Rightarrow>
          (d\<lparr>lemmaStats := foldl (tbl_put lemmaStatId) (lemmaStats d) stats\<rparr>, stats, k1))"

text \<open>The promotion filter.\<close>

definition isPromotionCandidate :: "real \<Rightarrow> real \<Rightarrow> nat \<Rightarrow> LemmaStatEntity \<Rightarrow> bool" where
  "isPromotionCandidate minCount minPages now s =
     (strOr (promotedVocabId s) [] = []
      \<and> minCount \<le> real (totalCount s)
      \<and> minPages \<le> real (pageCount s)
      \<and> (case cooldownUntil s of None \<Rightarrow> True | Some c \<Rightarrow> c = 0 \<or> c < now))"

text \<open>Whether a new entry starts noise-locked, in the promotion loop and in layer 1.\<close>

definition shouldLockAsNoise ::
  "string \<Rightarrow> string list \<Rightarrow> string list \<Rightarrow> (string \<times> WbWord) list \<Rightarrow> bool \<Rightarrow> string \<Rightarrow> bool" where
  "shouldLockAsNoise noiseId manualAdd manualRemove wbWords inWb n =
     (let fromBank = (noiseId \<noteq> [] \<and> inWb
                      \<and> (case map_of wbWords n of
                            None \<Rightarrow> False
                          | Some w \<Rightarrow> noiseId \<in> set (sourceWordbankIds w)));
          withAdd = (if n \<in> set manualAdd then True else fromBank)
      in if n \<in> set manualRemove then False else withAdd)"

definition markPromoted :: "string \<Rightarrow> string \<Rightarrow> nat \<Rightarrow> LemmaStatEntity \<Rightarrow> LemmaStatEntity" where
  "markPromoted vid why now s =
     s\<lparr>promotedVocabId := Some vid, promotedAt := Some now, promotionReason := Some why\<rparr>"

text \<open>The entry the promotion loop makes for a statistic that has none.\<close>

definition thresholdVocab ::
  "string \<Rightarrow> LemmaStatEntity \<Rightarrow> WbWord option \<Rightarrow> bool \<Rightarrow> nat \<Rightarrow> VocabEntity" where
  "thresholdVocab vid stat wbWord lock now =
     \<lparr>vocabId = vid, v_lemma = ls_lemma stat,
      surface = (case wbWord of None \<Rightarrow> ls_lemma stat | Some w \<Rightarrow> wb_surface w),
      language = ls_language stat, meaning = [], sourceTraceId = None,
      proficiency = 0, createdAt = now, updatedAt = now, deletedAt = None,
      sourceType = Some (if inWordbank stat then ''wordbank'' else ''ai''),
      sourceWordbankId = map_option wb_wordbankId wbWord,
      firstSeenAt = Some (ls_firstSeenAt stat), lastSeenAt = Some now,
      familiarityScore = Some (Num (if lock then 100 else 0)),
      nextReviewDate = None, isKnown = Some lock, scoreLocked = Some lock,
      isTraced = None, noiseManaged = Some lock\<rparr>"

text \<open>
  One round of the promotion loop. The accumulator holds the state, the statistics in
  memory, the pending new entries and the number of ids drawn.
\<close>

definition promoteStep ::
  "(nat \<Rightarrow> string) \<Rightarrow> string \<Rightarrow> string list \<Rightarrow> string list \<Rightarrow> (string \<times> WbWord) list \<Rightarrow> nat
   \<Rightarrow> db \<times> LemmaStatEntity list \<times> (string \<times> VocabEntity) list \<times> nat \<Rightarrow> LemmaStatEntity
   \<Rightarrow> db \<times> LemmaStatEntity list \<times> (string \<times> VocabEntity) list \<times> nat" where
  "promoteStep uuid noiseId manualAdd manualRemove wbWords now acc stat =
     (case acc of (d, stats, pending, k) \<Rightarrow>
        (case vocabByLemma d (ls_lemma stat) (ls_language stat) of
           Some existingVocab \<Rightarrow>
             (d\<lparr>lemmaStats := tbl_update lemmaStatId (lemmaStats d) (lemmaStatId stat)
                                (markPromoted (vocabId existingVocab) ''threshold'' now)\<rparr>,
              map (\<lambda>s. if normalizedLemma s = normalizedLemma stat
                        then markPromoted (vocabId existingVocab) ''threshold'' now s else s)
                stats,
              pending, k)
         | None \<Rightarrow>
             let lock = shouldLockAsNoise noiseId manualAdd manualRemove wbWords
                          (inWordbank stat) (normalizedLemma stat);
                 newVocab = thresholdVocab (uuid k) stat
                              (map_of wbWords (normalizedLemma stat)) lock now
             in (d\<lparr>lemmaStats := tbl_update lemmaStatId (lemmaStats d) (lemmaStatId stat)
                                   (markPromoted (uuid k) ''threshold'' now)\<rparr>,
                 map (\<lambda>s. if normalizedLemma s = normalizedLemma stat
                           then markPromoted (uuid k) ''threshold'' now s else s)
                   stats,
                 mapSet pending (uuid k) newVocab, Suc k)))"

text \<open>The promotion loop and the \<open>bulkAdd\<close> of the pending entries.\<close>

definition thresholdPromotion ::
  "(nat \<Rightarrow> string) \<Rightarrow> (string \<times> WbWord) list \<Rightarrow> nat
   \<Rightarrow> db \<Rightarrow> LemmaStatEntity list \<Rightarrow> nat \<Rightarrow> db \<times> LemmaStatEntity list \<times> nat" where
  "thresholdPromotion uuid wbWords now d stats k =
     (let st = settings d;
          candidates = filter (isPromotionCandidate (promotionMinCountOf st)
                                 (promotionMinPagesOf st) now) stats
      in case foldl (promoteStep uuid (scanNoiseWordbankId st)
                       (toLemmaSet (noiseManualAdd st)) (toLemmaSet (noiseManualRemove st))
                       wbWords now)
                (d, stats, [], k) candidates of
           (d1, stats1, pending, k1) \<Rightarrow>
             (d1\<lparr>vocabulary := vocabulary d1 @ map snd pending\<rparr>, stats1, k1))"

text \<open>
  Layer 1. \<open>vocabByLemmaMap\<close> is the map from normalised lemma to entry built from the
  entries that are not deleted and have the language of the payload.
\<close>

definition vocabByLemmaMap :: "db \<Rightarrow> string option \<Rightarrow> (string \<times> VocabEntity) list" where
  "vocabByLemmaMap d lang =
     foldl (\<lambda>m v. mapSet m (normalizeLemma (v_lemma v)) v) []
       (filter (\<lambda>v. \<not> truthyNum (deletedAt v) \<and> (strOr lang [] = [] \<or> Some (language v) = lang))
          (tbl_toArray vocabId (vocabulary d)))"

text \<open>The entry layer 1 makes for a wordbank word on the page that has none.\<close>

definition wordbankVocab :: "string \<Rightarrow> WbWord \<Rightarrow> bool \<Rightarrow> nat \<Rightarrow> VocabEntity" where
  "wordbankVocab vid wbWord lock now =
     \<lparr>vocabId = vid, v_lemma = wb_lemma wbWord, surface = wb_surface wbWord,
      language = ''en'', meaning = [], sourceTraceId = None, proficiency = 0,
      createdAt = now, updatedAt = now, deletedAt = None,
      sourceType = Some ''wordbank'',
      sourceWordbankId = Some (wb_wordbankId wbWord),
      firstSeenAt = Some now, lastSeenAt = Some now,
      familiarityScore = Some (Num (if lock then 100 else 0)),
      nextReviewDate = None, isKnown = Some lock, scoreLocked = Some lock,
      isTraced = None, noiseManaged = Some lock\<rparr>"

definition wordbankStep ::
  "(nat \<Rightarrow> string) \<Rightarrow> string \<Rightarrow> string list \<Rightarrow> string list \<Rightarrow> string list \<Rightarrow> nat
   \<Rightarrow> db \<times> LemmaStatEntity list \<times> (string \<times> VocabEntity) list
        \<times> (string \<times> VocabEntity) list \<times> nat
   \<Rightarrow> string \<times> WbWord
   \<Rightarrow> db \<times> LemmaStatEntity list \<times> (string \<times> VocabEntity) list
        \<times> (string \<times> VocabEntity) list \<times> nat" where
  "wordbankStep uuid noiseId manualAdd manualRemove qualifiedKeys now acc entry =
     (case acc of (d, stats, byLemma, wordbankPending, k) \<Rightarrow>
        (case entry of (n, wbWord) \<Rightarrow>
           if n \<in> set qualifiedKeys \<and> n \<notin> set (map fst byLemma)
           then
             let fromBank = (noiseId \<noteq> [] \<and> noiseId \<in> set (sourceWordbankIds wbWord));
                 withAdd = (if n \<in> set manualAdd then True else fromBank);
                 lock = (if n \<in> set manualRemove then False else withAdd);
                 newVocab = wordbankVocab (uuid k) wbWord lock now;
                 unpromoted = (case find (\<lambda>s. normalizedLemma s = n) stats of
                                 None \<Rightarrow> None
                               | Some s \<Rightarrow> if strOr (promotedVocabId s) [] = [] then Some s
                                          else None)
             in (case unpromoted of
                   None \<Rightarrow> (d, stats, mapSet byLemma n newVocab,
                            mapSet wordbankPending (uuid k) newVocab, Suc k)
                 | Some s \<Rightarrow>
                     (d\<lparr>lemmaStats := tbl_update lemmaStatId (lemmaStats d) (lemmaStatId s)
                                           (markPromoted (uuid k) ''wordbank'' now)\<rparr>,
                      map (\<lambda>x. if normalizedLemma x = n
                                then markPromoted (uuid k) ''wordbank'' now x else x) stats,
                      mapSet byLemma n newVocab,
                      mapSet wordbankPending (uuid k) newVocab, Suc k))
           else acc))"

definition wordbankPromotion ::
  "(nat \<Rightarrow> string) \<Rightarrow> (string \<times> WbWord) list \<Rightarrow> string list \<Rightarrow> string option \<Rightarrow> nat
   \<Rightarrow> db \<Rightarrow> LemmaStatEntity list \<Rightarrow> nat
   \<Rightarrow> db \<times> LemmaStatEntity list \<times> (string \<times> VocabEntity) list
        \<times> (string \<times> VocabEntity) list \<times> nat" where
  "wordbankPromotion uuid wbWords qualifiedKeys lang now d stats k =
     (let st = settings d
      in foldl (wordbankStep uuid (scanNoiseWordbankId st) (toLemmaSet (noiseManualAdd st))
                  (toLemmaSet (noiseManualRemove st)) qualifiedKeys now)
           (d, stats, vocabByLemmaMap d lang, [], k) wbWords)"

section \<open>Auto-trace replenishment (the last block of handleScanPageWords)\<close>

definition autoTracePoolSizeOf :: "Settings \<Rightarrow> real" where
  "autoTracePoolSizeOf st = (case autoTracePoolSize st of None \<Rightarrow> 30 | Some x \<Rightarrow> x)"

definition autoTraceMinEncountersOf :: "Settings \<Rightarrow> real" where
  "autoTraceMinEncountersOf st = (case autoTraceMinEncounters st of None \<Rightarrow> 3 | Some x \<Rightarrow> x)"

text \<open>The entries that count against the pool: traced, not known, not deleted.\<close>

definition activeTraced :: "VocabEntity \<Rightarrow> bool" where
  "activeTraced v =
     (isTraced v = Some True \<and> \<not> truthy (isKnown v) \<and> \<not> truthyNum (deletedAt v))"

definition activeTracedCount :: "db \<Rightarrow> nat" where
  "activeTracedCount d = length (filter activeTraced (vocabulary d))"

definition autoTraceCandidates :: "db \<Rightarrow> VocabEntity list" where
  "autoTraceCandidates d =
     filter (\<lambda>v. \<not> truthy (isTraced v) \<and> \<not> truthy (isKnown v) \<and> \<not> truthy (scoreLocked v)
                  \<and> \<not> truthyNum (deletedAt v) \<and> VALID_WORD_RE (v_lemma v))
       (tbl_toArray vocabId (vocabulary d))"

text \<open>\<open>candStats\<close>: the number of encounters of an entry and the latest of their times.\<close>

definition candCount :: "db \<Rightarrow> VocabEntity \<Rightarrow> nat" where
  "candCount d v = length (encountersOf d (vocabId v))"

definition candLastSeen :: "db \<Rightarrow> VocabEntity \<Rightarrow> nat" where
  "candLastSeen d v = foldl max 0 (map e_createdAt (encountersOf d (vocabId v)))"

definition autoTraceScore :: "db \<Rightarrow> nat \<Rightarrow> VocabEntity \<Rightarrow> real" where
  "autoTraceScore d now v =
     (let recencyDays = ddiv (dsub (real now) (real (candLastSeen d v))) msPerDay;
          recencyFactor = max (fl 0.1) (dsub 1 (ddiv recencyDays 30))
      in dmul (real (candCount d v)) recencyFactor)"

text \<open>
  The candidates that pass the filter, ranked by score, cut to \<open>slots\<close> items;
  \<open>slice(0, slots)\<close> truncates a positive \<open>slots\<close> to an integer.
\<close>

definition autoTraceSelection ::
  "(string \<Rightarrow> DictEntry option) \<Rightarrow> string list \<Rightarrow> nat \<Rightarrow> db \<Rightarrow> real \<Rightarrow> VocabEntity list" where
  "autoTraceSelection dict wordbankSet now d slots =
     take (nat \<lfloor>slots\<rfloor>)
       (sort_key (\<lambda>v. - autoTraceScore d now v)
          (filter (\<lambda>v. 0 < candCount d v
                       \<and> autoTraceMinEncountersOf (settings d) \<le> real (candCount d v)
                       \<and> (v_lemma v \<in> set wordbankSet \<or> dictLookup dict (v_lemma v) \<noteq> None))
             (autoTraceCandidates d)))"

definition autoTraceReplenish ::
  "(string \<Rightarrow> DictEntry option) \<Rightarrow> string list \<Rightarrow> nat \<Rightarrow> db \<Rightarrow> db" where
  "autoTraceReplenish dict wordbankSet now d =
     (if autoTraceEnabled (settings d) = Some False then d
      else
        let currentTraced = activeTracedCount d;
            slots = autoTracePoolSizeOf (settings d) - real currentTraced
        in if 0 < slots
           then foldl (\<lambda>acc v. updateVocab acc (vocabId v)
                                 (\<lambda>x. x\<lparr>isTraced := Some True, updatedAt := now\<rparr>))
                  d (autoTraceSelection dict wordbankSet now d slots)
           else d)"

section \<open>The page scan as a whole\<close>








section \<open>Card drawing (handleDrawCard in vocab.ts)\<close>

text \<open>
  The payload of \<open>handleDrawCard\<close>. A count is an integer (\<open>slice\<close> truncates any
  other number), a seed a non-negative integer that is a double.
\<close>

record DrawCardPayload =
  dc_count :: "int option"
  dc_mode :: "string option"
  dc_excludeIds :: "string list option"
  dc_seed :: "nat option"

text \<open>An eligible entry with its real-time score and its priority.\<close>

record ScoredItem =
  i_vocab :: VocabEntity
  i_score :: real
  i_priority :: real

text \<open>
  The factors and the priority, in the doubles the code computes: each operation
  rounds, the sum is taken from the left, and \<open>0.45\<close>, \<open>0.25\<close>, \<open>0.20\<close>, \<open>0.10\<close>
  and \<open>0.3\<close> are the doubles nearest to these literals. The products of integers
  \<open>24 * 60 * 60 * 1000\<close> and \<open>7 * 24 * 60 * 60 * 1000\<close> are exact.
\<close>

definition srsDueOf :: "nat \<Rightarrow> VocabEntity \<Rightarrow> real" where
  "srsDueOf now v =
     (let nextReview = (case nextReviewDate v of None \<Rightarrow> 0 | Some t \<Rightarrow> t)
      in if 0 < nextReview \<and> nextReview < now
         then min 1 (ddiv (dsub (real now) (real nextReview)) (7 * msPerDay))
         else if nextReview = 0 then 0.5 else 0)"

definition priorityOf :: "nat \<Rightarrow> VocabEntity \<Rightarrow> real \<Rightarrow> real" where
  "priorityOf now v sc =
     (let lastSeen = (case lastSeenAt v of None \<Rightarrow> createdAt v | Some t \<Rightarrow> t);
          daysSinceLastSeen = ddiv (dsub (real now) (real lastSeen)) msPerDay;
          srsDue = srsDueOf now v;
          difficulty = dsub 1 (ddiv sc KNOWN_THRESHOLD);
          urgency = (if truthy (isTraced v) then 1 else fl 0.3);
          recency = min 1 (ddiv daysSinceLastSeen 14)
      in dadd (dadd (dadd (dmul srsDue (fl 0.45)) (dmul difficulty (fl 0.25)))
                    (dmul urgency (fl 0.20)))
              (dmul recency (fl 0.10)))"

text \<open>The score computed from the encounters of an entry when the cards are drawn.\<close>

definition realTimeScore :: "db \<Rightarrow> VocabEntity \<Rightarrow> jsnum" where
  "realTimeScore d v =
     calculateWeightedScore (map source (encountersOf d (vocabId v)))
       (traceMultiplier (truthy (isTraced v)))"

definition drawCandidates :: "db \<Rightarrow> VocabEntity list" where
  "drawCandidates d =
     filter (\<lambda>v. \<not> truthyNum (deletedAt v) \<and> \<not> truthy (scoreLocked v) \<and> \<not> truthy (isKnown v))
       (tbl_toArray vocabId (vocabulary d))"

text \<open>
  \<open>eligible\<close> and \<open>scored\<close>: the candidates that are not excluded and whose real-time
  score is below the threshold (a comparison that \<open>NaN\<close> fails), each with that score
  and its priority.
\<close>

definition scoredEligible :: "db \<Rightarrow> string list \<Rightarrow> nat \<Rightarrow> ScoredItem list" where
  "scoredEligible d excludeIds now =
     List.map_filter
       (\<lambda>v. if vocabId v \<in> set excludeIds then None
            else (case realTimeScore d v of
                    NaN \<Rightarrow> None
                  | Num sc \<Rightarrow> if sc < KNOWN_THRESHOLD
                             then Some \<lparr>i_vocab = v, i_score = sc, i_priority = priorityOf now v sc\<rparr>
                             else None))
       (drawCandidates d)"

text \<open>\<open>items.slice(0, n)\<close>: a negative \<open>n\<close> counts from the end.\<close>

definition slice0 :: "int \<Rightarrow> 'a list \<Rightarrow> 'a list" where
  "slice0 n xs = (if n < 0 then take (length xs - nat (- n)) xs else take (nat n) xs)"

text \<open>
  \<open>sort\<close> is stable; the comparator \<open>b.priority - a.priority\<close> sorts descending: the
  difference of two doubles is \<open>0\<close> only when they are equal, and has the sign of
  the exact difference.
\<close>

definition pickTopN :: "ScoredItem list \<Rightarrow> int \<Rightarrow> ScoredItem list" where
  "pickTopN items n = slice0 n (sort_key (\<lambda>i. - i_priority i) items)"

text \<open>
  The linear congruential generator of \<open>weightedSampleWithoutReplacement\<close>:
  \<open>lcgState seed k\<close> is the state after \<open>k\<close> draws,
  \<open>(state * 1664525 + 1013904223) % 4294967296\<close>. The product and the sum round as
  doubles, to integers; the remainder of doubles is exact.
\<close>

fun lcgState :: "nat \<Rightarrow> nat \<Rightarrow> nat" where
  "lcgState seed 0 = seed"
| "lcgState seed (Suc k) =
     nat \<lfloor>dadd (dmul (real (lcgState seed k)) 1664525) 1013904223\<rfloor> mod 4294967296"

text \<open>
  The \<open>k\<close>-th value of \<open>rng()\<close>, counting from 0: from the generator when a seed is
  given, else the \<open>k\<close>-th value \<open>Math.random()\<close> returns, a number in \<open>[0, 1)\<close>.
\<close>

definition rngValue :: "nat option \<Rightarrow> (nat \<Rightarrow> real) \<Rightarrow> nat \<Rightarrow> real" where
  "rngValue seed random k =
     (case seed of
        None \<Rightarrow> random k
      | Some s \<Rightarrow> ddiv (real (lcgState s (Suc k))) 4294967296)"

text \<open>
  \<open>Math.pow(rng(), 1 / Math.max(0.001, item.priority))\<close>. The language leaves the
  accuracy of \<open>Math.pow\<close> to the engine, so the function is a parameter, \<open>pow\<close>.
\<close>

definition sampleKey :: "(real \<Rightarrow> real \<Rightarrow> real) \<Rightarrow> real \<Rightarrow> real \<Rightarrow> real" where
  "sampleKey pow u p = pow u (ddiv 1 (max (fl 0.001) p))"

definition weightedSampleWithoutReplacement ::
  "(real \<Rightarrow> real \<Rightarrow> real) \<Rightarrow> ScoredItem list \<Rightarrow> int \<Rightarrow> nat option \<Rightarrow> (nat \<Rightarrow> real)
   \<Rightarrow> ScoredItem list" where
  "weightedSampleWithoutReplacement pow items n seed random =
     (let keyed = map (\<lambda>(k, item).
                         (item, sampleKey pow (rngValue seed random k) (i_priority item)))
                    (enumerate 0 items)
      in map fst (slice0 n (sort_key (\<lambda>x. - snd x) keyed)))"

text \<open>The items \<open>handleDrawCard\<close> selects, before they are turned into cards.\<close>

text \<open>The defaults of the payload: \<open>count = 10\<close>, \<open>excludeIds = []\<close>.\<close>

definition countOf :: "DrawCardPayload \<Rightarrow> int" where
  "countOf payload = (case dc_count payload of None \<Rightarrow> 10 | Some c \<Rightarrow> c)"

definition excludedOf :: "DrawCardPayload \<Rightarrow> string list" where
  "excludedOf payload = (case dc_excludeIds payload of None \<Rightarrow> [] | Some xs \<Rightarrow> xs)"

definition drawSelected ::
  "db \<Rightarrow> DrawCardPayload \<Rightarrow> (real \<Rightarrow> real \<Rightarrow> real) \<Rightarrow> (nat \<Rightarrow> real) \<Rightarrow> nat
   \<Rightarrow> ScoredItem list" where
  "drawSelected d payload pow random now =
     (let scored = scoredEligible d (excludedOf payload) now
      in if dc_mode payload = Some ''auto''
         then pickTopN scored (countOf payload)
         else weightedSampleWithoutReplacement pow scored (countOf payload) (dc_seed payload)
                random)"

text \<open>
  A card. The context sentence and page title, taken from the encounters for display
  only, are left out. \<open>Math.round\<close> gives the nearest integer, a half going up; the
  product before it and the quotient after it round as doubles.
\<close>

record Card =
  c_vocabId :: string
  c_lemma :: string
  c_surface :: string
  c_meaning :: string
  weightedScore :: real
  c_isTraced :: bool
  c_priority :: real

definition toCard :: "ScoredItem \<Rightarrow> Card" where
  "toCard s = \<lparr>c_vocabId = vocabId (i_vocab s), c_lemma = v_lemma (i_vocab s),
               c_surface = surface (i_vocab s), c_meaning = meaning (i_vocab s),
               weightedScore = i_score s,
               c_isTraced = (case isTraced (i_vocab s) of None \<Rightarrow> False | Some b \<Rightarrow> b),
               c_priority = ddiv (real_of_int \<lfloor>dmul (i_priority s) 100 + 1 / 2\<rfloor>) 100\<rparr>"

definition handleDrawCard ::
  "db \<Rightarrow> DrawCardPayload \<Rightarrow> (real \<Rightarrow> real \<Rightarrow> real) \<Rightarrow> (nat \<Rightarrow> real) \<Rightarrow> nat \<Rightarrow> Card list" where
  "handleDrawCard d payload pow random now =
     map toCard (drawSelected d payload pow random now)"

text \<open>The eligible set as the specification words it: not deleted, not locked, not known, not excluded.\<close>

definition specEligible :: "db \<Rightarrow> string list \<Rightarrow> VocabEntity list" where
  "specEligible d excludeIds =
     filter (\<lambda>v. \<not> truthyNum (deletedAt v) \<and> \<not> truthy (scoreLocked v) \<and> \<not> truthy (isKnown v)
                  \<and> vocabId v \<notin> set excludeIds)
       (vocabulary d)"

text \<open>
  The priority as the specification words it (section 4.5), in doubles: the four
  products summed from the left, the time overdue measured against seven days in one
  division, the days since the entry was last seen divided by 14. A stored next-review
  date of 0 is the code's mark for no date, as \<open>v.nextReviewDate ?? 0\<close> makes an
  absent one.
\<close>

definition specSrsDue :: "nat \<Rightarrow> VocabEntity \<Rightarrow> real" where
  "specSrsDue now v =
     (case nextReviewDate v of
        None \<Rightarrow> 0.5
      | Some t \<Rightarrow>
          if t = 0 then 0.5
          else if now \<le> t then 0
          else min 1 (ddiv (dsub (real now) (real t)) (7 * msPerDay)))"

definition specPriority :: "nat \<Rightarrow> VocabEntity \<Rightarrow> real \<Rightarrow> real" where
  "specPriority now v sc =
     dadd (dadd (dadd (dmul (fl 0.45) (specSrsDue now v))
                      (dmul (fl 0.25) (dsub 1 (ddiv sc 100))))
                (dmul (fl 0.20) (if truthy (isTraced v) then 1.0 else fl 0.3)))
          (dmul (fl 0.10)
             (min 1 (ddiv (ddiv (dsub (real now)
                                  (real (case lastSeenAt v of None \<Rightarrow> createdAt v
                                         | Some t \<Rightarrow> t)))
                             msPerDay)
                       14)))"

text \<open>
  The score of an entry at the time of the draw: the weighted score of its encounters,
  taken in the order of their ids, doubled weights for a traced entry.
\<close>

definition scoreAtDraw :: "db \<Rightarrow> VocabEntity \<Rightarrow> jsnum" where
  "scoreAtDraw d v =
     calculateWeightedScore
       (map source (filter (\<lambda>e. e_vocabId e = vocabId v) (sort_key encounterId (encounters d))))
       (if isTraced v = Some True then 2 else 1)"

text \<open>
  The eligible set of the amended claims: the entries that are not deleted, not locked,
  not known and not excluded, and whose score at the time of the draw is below 100.
\<close>

definition drawEligible :: "db \<Rightarrow> string list \<Rightarrow> VocabEntity list" where
  "drawEligible d excludeIds =
     filter (\<lambda>v. \<not> truthyNum (deletedAt v) \<and> \<not> truthy (scoreLocked v) \<and> \<not> truthy (isKnown v)
                  \<and> vocabId v \<notin> set excludeIds
                  \<and> js_lt (scoreAtDraw d v) 100)
       (vocabulary d)"

text \<open>The ranking of auto mode: higher priority first, equal priorities by ascending id.\<close>

definition rankedBefore :: "ScoredItem \<Rightarrow> ScoredItem \<Rightarrow> bool" where
  "rankedBefore a b =
     (i_priority b < i_priority a
      \<or> (i_priority a = i_priority b \<and> vocabId (i_vocab a) < vocabId (i_vocab b)))"

section \<open>Promotion, in the words of the specification\<close>




section \<open>Notions used in the proofs about promotion\<close>




section \<open>Invariants of a vocabulary entry\<close>

text \<open>\<open>isKnown == (familiarityScore >= KNOWN_THRESHOLD)\<close>, an absent score comparing false.\<close>

definition knownInvariant :: "VocabEntity \<Rightarrow> bool" where
  "knownInvariant v =
     (truthy (isKnown v)
      = (case familiarityScore v of None \<Rightarrow> False | Some n \<Rightarrow> js_ge n KNOWN_THRESHOLD))"

definition lockedAndTraced :: "VocabEntity \<Rightarrow> bool" where
  "lockedAndTraced v = (truthy (scoreLocked v) \<and> truthy (isTraced v))"

section \<open>Example states\<close>

definition emptySettings :: Settings where
  "emptySettings = \<lparr>noiseWordbankId = None, noiseManualAdd = None, noiseManualRemove = None,
     noiseConfigHash = None, promotionMinCount = None, promotionMinPages = None,
     environmentRankThreshold = None, autoTraceEnabled = None, autoTracePoolSize = None,
     autoTraceMinEncounters = None\<rparr>"

text \<open>A noise-locked entry for \<open>the\<close> with one lookup encounter.\<close>

definition lockedThe :: VocabEntity where
  "lockedThe = \<lparr>vocabId = ''v1'', v_lemma = ''the'', surface = ''the'', language = ''en'',
     meaning = [], sourceTraceId = None, proficiency = 0, createdAt = 1000, updatedAt = 1000,
     deletedAt = None, sourceType = None, sourceWordbankId = None, firstSeenAt = None,
     lastSeenAt = None, familiarityScore = Some (Num 100), nextReviewDate = None,
     isKnown = Some True, scoreLocked = Some True, isTraced = None,
     noiseManaged = Some True\<rparr>"

definition firstLookup :: EncounterEntity where
  "firstLookup = \<lparr>encounterId = ''e1'', e_vocabId = ''v1'', e_surface = ''the'',
     normalizedSurface = ''the'', pageUrl = ''https://a.example/1'', pageHost = ''a.example'',
     pageTitle = None, contextSentence = None, source = ''lookup'',
     e_createdAt = 1000, e_updatedAt = 1000\<rparr>"

definition secondLookup :: EncounterEntity where
  "secondLookup = \<lparr>encounterId = ''e2'', e_vocabId = ''v1'', e_surface = ''the'',
     normalizedSurface = ''the'', pageUrl = ''https://b.example/2'', pageHost = ''b.example'',
     pageTitle = None, contextSentence = None, source = ''lookup'',
     e_createdAt = 5000, e_updatedAt = 5000\<rparr>"

definition lockedDb :: db where
  "lockedDb = \<lparr>vocabulary = [lockedThe], encounters = [firstLookup], traces = [],
     settings = emptySettings, wordbanks = [], wordbankWords = [], userWordbanks = [],
     lemmaStats = []\<rparr>"

definition lookupPayload :: RecordEncounterPayload where
  "lookupPayload = \<lparr>p_vocabId = Some ''v1'', p_word = None, p_language = None,
     p_pageUrl = Some ''https://b.example/2'', p_pageTitle = None,
     p_contextSentence = None, p_source = Some ''lookup''\<rparr>"

definition unlockedDb :: db where
  "unlockedDb =
     lockedDb\<lparr>vocabulary := [lockedThe\<lparr>scoreLocked := Some False,
                    familiarityScore := Some (Num 0), isKnown := Some False,
                    noiseManaged := Some False, updatedAt := 5000\<rparr>],
              encounters := [firstLookup, secondLookup]\<rparr>"


text \<open>
  An entry for \<open>the\<close> that twenty \<open>rate_known\<close> ratings have brought to the
  threshold, with \<open>the\<close> on the manual noise list.
\<close>

definition ratedThe :: VocabEntity where
  "ratedThe = lockedThe\<lparr>familiarityScore := Some (Num 100), isKnown := Some True,
                        scoreLocked := None, noiseManaged := None\<rparr>"

definition ratingOf :: "string \<Rightarrow> EncounterEntity" where
  "ratingOf eid = \<lparr>encounterId = eid, e_vocabId = ''v1'', e_surface = ''the'',
     normalizedSurface = ''the'', pageUrl = [], pageHost = [],
     pageTitle = None, contextSentence = None, source = ''rate_known'',
     e_createdAt = 1000, e_updatedAt = 1000\<rparr>"

definition ratedDb :: db where
  "ratedDb = \<lparr>vocabulary = [ratedThe],
     encounters = map ratingOf
       [''r00'', ''r01'', ''r02'', ''r03'', ''r04'', ''r05'', ''r06'', ''r07'', ''r08'', ''r09'',
        ''r10'', ''r11'', ''r12'', ''r13'', ''r14'', ''r15'', ''r16'', ''r17'', ''r18'', ''r19''],
     traces = [],
     settings = emptySettings\<lparr>noiseManualAdd := Some [''the'']\<rparr>,
     wordbanks = [], wordbankWords = [], userWordbanks = [], lemmaStats = []\<rparr>"

text \<open>A forced synchronisation locks the entry; tracing it and synchronising again follow.\<close>

definition ratedDbLocked :: db where
  "ratedDbLocked = fst (syncNoiseWordsFromSettings (\<lambda>k. ''u'') 2000 True ratedDb)"

definition ratedDbTraced :: db where
  "ratedDbTraced = snd (handleToggleTraceWord ratedDbLocked (Some ''v1'') True 3000)"

definition ratedDbResynced :: db where
  "ratedDbResynced = fst (syncNoiseWordsFromSettings (\<lambda>k. ''u'') 4000 True ratedDbTraced)"

text \<open>Unlocking the locked entry by hand instead resets its stored score.\<close>

definition ratedDbUnlocked :: db where
  "ratedDbUnlocked = snd (handleUnlockNoiseWord ratedDbLocked (Some ''v1'') 3000)"

text \<open>Three entries without encounters, stored out of key order; \<open>c\<close> is traced.\<close>

definition plainEntry :: "string \<Rightarrow> VocabEntity" where
  "plainEntry k = \<lparr>vocabId = k, v_lemma = ''word'' @ k, surface = ''word'' @ k,
     language = ''en'', meaning = [], sourceTraceId = None, proficiency = 0,
     createdAt = 9000, updatedAt = 9000, deletedAt = None, sourceType = None,
     sourceWordbankId = None, firstSeenAt = None, lastSeenAt = None,
     familiarityScore = Some (Num 0), nextReviewDate = None, isKnown = Some False,
     scoreLocked = Some False, isTraced = None, noiseManaged = None\<rparr>"

definition tieDb :: db where
  "tieDb = \<lparr>vocabulary = [plainEntry ''b'', (plainEntry ''c'')\<lparr>isTraced := Some True\<rparr>,
                           plainEntry ''a''],
     encounters = [], traces = [], settings = emptySettings,
     wordbanks = [], wordbankWords = [], userWordbanks = [], lemmaStats = []\<rparr>"

definition drawPayload :: "int \<Rightarrow> string \<Rightarrow> DrawCardPayload" where
  "drawPayload n m = \<lparr>dc_count = Some n, dc_mode = Some m, dc_excludeIds = None,
                      dc_seed = Some 42\<rparr>"


text \<open>
  The three entries again with a pool of two: \<open>c\<close> is traced, \<open>a\<close> has one
  encounter and \<open>b\<close> two.
\<close>

definition scanOf :: "string \<Rightarrow> string \<Rightarrow> EncounterEntity" where
  "scanOf eid vid = \<lparr>encounterId = eid, e_vocabId = vid, e_surface = ''word'' @ vid,
     normalizedSurface = ''word'' @ vid, pageUrl = ''https://a.example/1'',
     pageHost = ''a.example'', pageTitle = None, contextSentence = None, source = ''scan'',
     e_createdAt = 1000, e_updatedAt = 1000\<rparr>"

definition poolDb :: db where
  "poolDb = tieDb\<lparr>encounters := [scanOf ''e1'' ''a'', scanOf ''e2'' ''b'', scanOf ''e3'' ''b''],
                  settings := emptySettings\<lparr>autoTracePoolSize := Some 2,
                                            autoTraceMinEncounters := Some 1\<rparr>\<rparr>"


text \<open>
  A scan of a page on which \<open>ubiquitous\<close> occurs once, from a state that has seen the
  word five times on two other pages; no wordbank is enabled.
\<close>

definition exUuid :: "nat \<Rightarrow> string" where
  "exUuid k = ''id-'' @ replicate k (CHR ''x'')"






text \<open>
  A scan, with recording, of a page on which the wordbank word \<open>apple\<close> occurs once,
  from a state that has never seen it; auto-trace is switched off.
\<close>

definition appleDb :: db where
  "appleDb = \<lparr>vocabulary = [], encounters = [], traces = [],
     settings = emptySettings\<lparr>autoTraceEnabled := Some False\<rparr>,
     wordbanks = [\<lparr>wordbankId = ''wb_cet4'', code = Cet4\<rparr>],
     wordbankWords = [\<lparr>wordId = ''wb_cet4_0'', w_wordbankId = ''wb_cet4'',
                       w_lemma = ''apple'', w_surface = ''apple'', normalized = ''apple''\<rparr>],
     userWordbanks = [\<lparr>userWordbankId = ''uw1'', uw_wordbankId = ''wb_cet4'',
                       enabled = True\<rparr>],
     lemmaStats = []\<rparr>"

definition applePayload :: ScanPageWordsPayload where
  "applePayload = \<lparr>s_pageUrl = Some ''https://c.example/3'', s_pageTitle = None,
     s_language = None, s_tokens = Some [''apple''], s_textContent = None,
     s_sentences = None, s_record = Some True\<rparr>"



text \<open>The stages of that scan, named as \<open>handleScanPageWords\<close> runs them.\<close>

definition appleWords :: "(string \<times> WbWord) list" where
  "appleWords = getEnabledWordbankWords appleDb"

definition appleQualified :: "(string \<times> nat) list" where
  "appleQualified = qualifiedTokens (\<lambda>l. None) (map fst appleWords)
                      (environmentRankThresholdOf (settings appleDb))
                      (countTokens (scanTokens applePayload))"

definition appleAggregated :: "db \<times> LemmaStatEntity list \<times> nat" where
  "appleAggregated = aggregateStats (\<lambda>l. None) (map fst appleWords) exUuid
                       (strOr (s_pageUrl applePayload) []) ''c.example''
                       (s_language applePayload) 9000 appleDb appleQualified 0"

definition appleThreshold :: "db \<times> LemmaStatEntity list \<times> nat" where
  "appleThreshold = thresholdPromotion exUuid appleWords 9000 (fst appleAggregated)
                      (fst (snd appleAggregated)) (snd (snd appleAggregated))"

definition appleWordbank ::
  "db \<times> LemmaStatEntity list \<times> (string \<times> VocabEntity) list \<times> (string \<times> VocabEntity) list \<times> nat" where
  "appleWordbank = wordbankPromotion exUuid appleWords (map fst appleQualified)
                     (s_language applePayload) 9000 (fst appleThreshold)
                     (fst (snd appleThreshold)) (snd (snd appleThreshold))"


text \<open>The statistic and the entry that this scan creates.\<close>

definition appleStat :: LemmaStatEntity where
  "appleStat = \<lparr>lemmaStatId = ''id-'', ls_lemma = ''apple'', normalizedLemma = ''apple'',
     ls_language = ''en'', totalCount = 1, pageCount = 1, ls_firstSeenAt = 9000,
     ls_lastSeenAt = 9000, lastPageUrl = Some ''https://c.example/3'',
     lastPageHost = Some ''c.example'', inWordbank = True, dictRank = None,
     promotedVocabId = None, promotedAt = None, promotionReason = None,
     cooldownUntil = None, ls_updatedAt = 9000\<rparr>"

definition appleVocab :: VocabEntity where
  "appleVocab = \<lparr>vocabId = ''id-x'', v_lemma = ''apple'', surface = ''apple'',
     language = ''en'', meaning = [], sourceTraceId = None, proficiency = 0,
     createdAt = 9000, updatedAt = 9000, deletedAt = None, sourceType = Some ''wordbank'',
     sourceWordbankId = Some ''wb_cet4'', firstSeenAt = Some 9000, lastSeenAt = Some 9000,
     familiarityScore = Some (Num 0), nextReviewDate = None, isKnown = Some False,
     scoreLocked = Some False, isTraced = None, noiseManaged = Some False\<rparr>"

definition appleStatPromoted :: LemmaStatEntity where
  "appleStatPromoted = appleStat\<lparr>promotedVocabId := Some ''id-x'', promotedAt := Some 9000,
                                  promotionReason := Some ''wordbank''\<rparr>"


text \<open>
  A review store, drawn from at time \<open>1700000000000\<close>. Entry \<open>a\<close> has 19
  \<open>rate_known\<close>, 2 \<open>manual\<close>, 1 \<open>import\<close> and 5 \<open>scan\<close> encounters, in this order
  of their ids, entry \<open>b\<close> has
  20 \<open>rate_known\<close> ratings and the stored score and flags an unlock by hand leaves,
  the traced entry \<open>c\<close> has 3 \<open>scan\<close> encounters, \<open>d\<close> is noise-locked and \<open>e\<close> has
  no encounters. The stored scores of \<open>a\<close> and \<open>c\<close> are those of their encounters.
\<close>

definition reviewNow :: nat where
  "reviewNow = 1700000000000"

definition encounterOf :: "string \<Rightarrow> string \<Rightarrow> string \<Rightarrow> EncounterEntity" where
  "encounterOf eid vid src = \<lparr>encounterId = eid, e_vocabId = vid, e_surface = ''word'' @ vid,
     normalizedSurface = ''word'' @ vid, pageUrl = ''https://a.example/1'',
     pageHost = ''a.example'', pageTitle = None, contextSentence = None, source = src,
     e_createdAt = 1000, e_updatedAt = 1000\<rparr>"

definition rowIds :: "string list" where
  "rowIds = [''00'', ''01'', ''02'', ''03'', ''04'', ''05'', ''06'', ''07'', ''08'', ''09'',
             ''10'', ''11'', ''12'', ''13'', ''14'', ''15'', ''16'', ''17'', ''18'', ''19'',
             ''20'', ''21'', ''22'', ''23'', ''24'', ''25'', ''26'']"

definition encountersFor :: "string \<Rightarrow> string list \<Rightarrow> EncounterEntity list" where
  "encountersFor vid srcs = map (\<lambda>(i, src). encounterOf (vid @ i) vid src) (zip rowIds srcs)"

definition sourcesA :: "string list" where
  "sourcesA =
     [''rate_known'', ''rate_known'', ''rate_known'', ''rate_known'', ''rate_known'',
      ''rate_known'', ''rate_known'', ''rate_known'', ''rate_known'', ''rate_known'',
      ''rate_known'', ''rate_known'', ''rate_known'', ''rate_known'', ''rate_known'',
      ''rate_known'', ''rate_known'', ''rate_known'', ''rate_known'',
      ''manual'', ''manual'', ''import'', ''scan'', ''scan'', ''scan'', ''scan'', ''scan'']"

definition sourcesB :: "string list" where
  "sourcesB =
     [''rate_known'', ''rate_known'', ''rate_known'', ''rate_known'', ''rate_known'',
      ''rate_known'', ''rate_known'', ''rate_known'', ''rate_known'', ''rate_known'',
      ''rate_known'', ''rate_known'', ''rate_known'', ''rate_known'', ''rate_known'',
      ''rate_known'', ''rate_known'', ''rate_known'', ''rate_known'', ''rate_known'']"

definition reviewA :: VocabEntity where
  "reviewA = (plainEntry ''a'')\<lparr>familiarityScore :=
                 Some (Num (3518437208883199 / 35184372088832))\<rparr>"

definition reviewB :: VocabEntity where
  "reviewB = plainEntry ''b''"

definition reviewC :: VocabEntity where
  "reviewC = (plainEntry ''c'')\<lparr>isTraced := Some True,
                 familiarityScore := Some (Num (1351079888211149 / 2251799813685248))\<rparr>"

definition reviewD :: VocabEntity where
  "reviewD = (plainEntry ''d'')\<lparr>familiarityScore := Some (Num 100), isKnown := Some True,
                 scoreLocked := Some True, noiseManaged := Some True\<rparr>"

definition reviewE :: VocabEntity where
  "reviewE = plainEntry ''e''"

definition reviewDb :: db where
  "reviewDb = \<lparr>vocabulary = [reviewC, reviewA, reviewD, reviewB, reviewE],
     encounters = encountersFor ''a'' sourcesA @ encountersFor ''b'' sourcesB
                  @ encountersFor ''c'' [''scan'', ''scan'', ''scan''],
     traces = [], settings = emptySettings,
     wordbanks = [], wordbankWords = [], userWordbanks = [], lemmaStats = []\<rparr>"

definition reviewPayload :: "int \<Rightarrow> string \<Rightarrow> DrawCardPayload" where
  "reviewPayload n m = \<lparr>dc_count = Some n, dc_mode = Some m, dc_excludeIds = Some [''e''],
                        dc_seed = Some 42\<rparr>"

text \<open>A stand-in for \<open>Math.pow\<close> in the examples.\<close>

definition exPow :: "real \<Rightarrow> real \<Rightarrow> real" where
  "exPow x y = x"

text \<open>
  Two entries whose priorities are both \<open>0.535\<close> in exact arithmetic: \<open>a\<close> has four
  lookups and was last seen 1.4 days before the draw, \<open>b\<close> has six lookups and was last
  seen 2.1 days before it.
\<close>

definition nearA :: VocabEntity where
  "nearA = (plainEntry ''a'')\<lparr>familiarityScore := Some (Num 4),
               lastSeenAt := Some (reviewNow - 120960000)\<rparr>"

definition nearB :: VocabEntity where
  "nearB = (plainEntry ''b'')\<lparr>familiarityScore := Some (Num 6),
               lastSeenAt := Some (reviewNow - 181440000)\<rparr>"

definition nearTieDb :: db where
  "nearTieDb = \<lparr>vocabulary = [nearA, nearB],
     encounters = encountersFor ''a'' [''lookup'', ''lookup'', ''lookup'', ''lookup'']
                  @ encountersFor ''b'' [''lookup'', ''lookup'', ''lookup'', ''lookup'',
                                         ''lookup'', ''lookup''],
     traces = [], settings = emptySettings,
     wordbanks = [], wordbankWords = [], userWordbanks = [], lemmaStats = []\<rparr>"

section \<open>Properties of the scoring function\<close>

text \<open>The definitions to unfold when a double is computed.\<close>

lemmas fl_defs = fl_def binExp_def roundHalfEven_def dadd_def dsub_def dmul_def ddiv_def Let_def

lemma roundHalfEven_nonneg: "0 \<le> x \<Longrightarrow> 0 \<le> roundHalfEven x"
  by (auto simp: roundHalfEven_def Let_def)

lemma fl_nonneg: "0 \<le> x \<Longrightarrow> 0 \<le> fl x"
  unfolding fl_def Let_def
  by (intro mult_nonneg_nonneg) (simp_all add: roundHalfEven_nonneg)

lemma fl_weights:
  "fl (1 / 10) = 3602879701896397 / 36028797018963968"
  "fl 1 = 1" "fl 2 = 2" "fl (1 / 2) = 1 / 2" "fl 5 = 5" "fl 3 = 3"
  by (simp_all add: fl_defs)

lemma specWeight_nonneg: "0 \<le> fl (specWeight tag)"
  by (rule fl_nonneg) (simp add: specWeight_def)

lemma points_specWeight:
  "src \<notin> set objectPrototypeKeys \<Longrightarrow> points src m = Num (dmul (fl (specWeight src)) m)"
  by (simp add: points_def weightRead_def SCORING_WEIGHTS_def specWeight_def fl_weights)

lemma foldl_score_Num:
  assumes "\<forall>s \<in> set srcs. s \<notin> set objectPrototypeKeys" and "0 \<le> m" and "0 \<le> a"
  shows "foldl (\<lambda>sum src. js_max0 (js_add sum (points src m))) (Num a) srcs
         = Num (foldl (\<lambda>sum src. dadd sum (dmul (fl (specWeight src)) m)) a srcs)
         \<and> 0 \<le> foldl (\<lambda>sum src. dadd sum (dmul (fl (specWeight src)) m)) a srcs"
  using assms
proof (induction srcs arbitrary: a)
  case Nil
  then show ?case by simp
next
  case (Cons s srcs)
  have "0 \<le> dmul (fl (specWeight s)) m"
    unfolding dmul_def using specWeight_nonneg Cons.prems(2) by (intro fl_nonneg) simp
  then have nonneg: "0 \<le> dadd a (dmul (fl (specWeight s)) m)"
    unfolding dadd_def using Cons.prems(3) by (intro fl_nonneg) simp
  have step: "js_max0 (js_add (Num a) (points s m)) = Num (dadd a (dmul (fl (specWeight s)) m))"
    using Cons.prems(1) nonneg by (simp add: points_specWeight)
  show ?case
    using Cons.IH [of "dadd a (dmul (fl (specWeight s)) m)"] Cons.prems(1,2) nonneg
    by (simp add: step)
qed

text \<open>
  For source tags that do not name an inherited property the score is the sum the
  specification describes, taken from the left in doubles, with the specification's
  weights; it is at least 0, and the specification's example scores \<open>10.2\<close>.
\<close>

lemma calculateWeightedScore_double_sum:
  assumes "\<forall>s \<in> set srcs. s \<notin> set objectPrototypeKeys"
  shows "calculateWeightedScore srcs (traceMultiplier traced)
           = Num (foldl (\<lambda>sum src. dadd sum (dmul (fl (specWeight src)) (traceMultiplier traced)))
                    0 srcs)"
    and "js_ge (calculateWeightedScore srcs (traceMultiplier traced)) 0"
proof -
  have m: "0 \<le> traceMultiplier traced" by (simp add: traceMultiplier_def)
  note f = foldl_score_Num [OF assms m, of 0]
  show "calculateWeightedScore srcs (traceMultiplier traced)
           = Num (foldl (\<lambda>sum src. dadd sum (dmul (fl (specWeight src)) (traceMultiplier traced)))
                    0 srcs)"
    using f by (simp add: calculateWeightedScore_def)
  then show "js_ge (calculateWeightedScore srcs (traceMultiplier traced)) 0"
    using f by simp
qed

lemma calculateWeightedScore_example:
  "calculateWeightedScore (replicate 5 ''trace'' @ [''scan'']) (traceMultiplier True)
   = Num (fl 10.2)"
  by (simp add: calculateWeightedScore_def points_def weightRead_def SCORING_WEIGHTS_def
      traceMultiplier_def numeral_eq_Suc fl_defs)

text \<open>
  Claim C1 fails on the code. A source tag that names a property every object inherits,
  such as \<open>constructor\<close>, is an unknown source, for which the claim gives the weight
  \<open>0.1\<close> as the code does for \<open>unheard\<close>; but the read of the weight table finds the
  inherited function, the fallback \<open>|| 0.1\<close> is skipped, and the score is \<open>NaN\<close>,
  for this encounter and for every list that contains it. \<open>NaN\<close> is not at least 0.
\<close>

theorem calculateWeightedScore_inherited_source:
  "calculateWeightedScore [''unheard''] (traceMultiplier False) = Num (fl 0.1)
   \<and> calculateWeightedScore [''constructor''] (traceMultiplier False) = NaN
   \<and> calculateWeightedScore [''lookup'', ''constructor'', ''lookup''] (traceMultiplier False) = NaN
   \<and> \<not> js_ge (calculateWeightedScore [''constructor''] (traceMultiplier False)) 0"
  by (simp add: calculateWeightedScore_def points_def weightRead_def SCORING_WEIGHTS_def
      objectPrototypeKeys_def traceMultiplier_def fl_defs)

section \<open>Table and state lemmas\<close>

lemma tbl_get_update:
  assumes "\<And>r. key (f r) = key r"
  shows "tbl_get key (tbl_update key rows k f) k'
         = (if k' = k then map_option f (tbl_get key rows k) else tbl_get key rows k')"
  using assms by (induction rows) (auto simp: tbl_get_def tbl_update_def)

lemma getVocab_updateVocab:
  assumes "\<And>r. vocabId (f r) = vocabId r"
  shows "getVocab (updateVocab d vid f) vid'
         = (if vid' = vid then map_option f (getVocab d vid) else getVocab d vid')"
  using assms by (simp add: getVocab_def updateVocab_def tbl_get_update)

lemma encounters_updateVocab [simp]: "encounters (updateVocab d vid f) = encounters d"
  by (simp add: updateVocab_def)

lemma encountersOf_updateVocab [simp]: "encountersOf (updateVocab d vid f) v = encountersOf d v"
  by (simp add: encountersOf_def)

lemma getVocab_encounters_update [simp]: "getVocab (d\<lparr>encounters := es\<rparr>) vid = getVocab d vid"
  by (simp add: getVocab_def)

lemma recalc_locked:
  "getVocab d vid = Some v \<Longrightarrow> scoreLocked v = Some True \<Longrightarrow> recalcVocabScore d vid now = d"
  by (simp add: recalcVocabScore_def truthy_def)

lemma autoUnlock_lookup:
  assumes "getVocab d vid = Some v" and "scoreLocked v = Some True"
    and "2 \<le> length (filter (\<lambda>e. source e = ''lookup'') (encountersOf d vid))"
  shows "getVocab (autoUnlock d ''lookup'' vid now) vid
         = Some (v\<lparr>scoreLocked := Some False, familiarityScore := Some (Num 0),
                   isKnown := Some False, noiseManaged := Some False, updatedAt := now\<rparr>)"
  using assms
  by (simp add: autoUnlock_def truthy_def resetNoiseWordFields_def getVocab_updateVocab)

lemma encounters_autoUnlock [simp]: "encounters (autoUnlock d src vid now) = encounters d"
  by (simp add: autoUnlock_def resetNoiseWordFields_def split: option.splits)

lemma encounters_recalc [simp]: "encounters (recalcVocabScore d vid now) = encounters d"
  by (simp add: recalcVocabScore_def Let_def split: option.splits)

lemma tbl_get_distinct:
  assumes "distinct (map key rows)" and "r \<in> set rows"
  shows "tbl_get key rows (key r) = Some r"
  using assms by (induction rows) (auto simp: tbl_get_def)

lemma find_SomeD_set: "find P xs = Some x \<Longrightarrow> x \<in> set xs \<and> P x"
  by (induction xs) (auto split: if_splits)

lemma tbl_get_put_same:
  "tbl_get key (tbl_put key rows r) (key r) = Some r"
  by (induction rows) (auto simp: tbl_get_def tbl_put_def list_ex_iff split: if_splits)

lemma handleUpsertVocab_encounters:
  "handleUpsertVocab d data newId now = (res, d1) \<Longrightarrow> encounters d1 = encounters d"
  by (auto simp: handleUpsertVocab_def Let_def split: if_splits option.splits)

lemma resolveVocab_encounters:
  "resolveVocab d data nv now = Inr (vid, surf, d1) \<Longrightarrow> encounters d1 = encounters d"
  by (auto simp: resolveVocab_def split: if_splits option.splits prod.splits sum.splits
      dest: handleUpsertVocab_encounters)

lemma vocabByLemma_SomeD:
  "vocabByLemma d l lang = Some f \<Longrightarrow> f \<in> set (vocabulary d)"
  by (auto simp: vocabByLemma_def tbl_toArray_def dest: find_SomeD_set)

lemma getVocab_distinct:
  "distinct (map vocabId (vocabulary d)) \<Longrightarrow> f \<in> set (vocabulary d)
   \<Longrightarrow> getVocab d (vocabId f) = Some f"
  by (simp add: getVocab_def tbl_get_distinct)

lemma tbl_get_add_old:
  "tbl_get key rows k = Some r \<Longrightarrow> tbl_get key (tbl_add rows r') k = Some r"
  by (induction rows) (auto simp: tbl_get_def tbl_add_def)

lemma handleUpsertVocab_keeps_lock:
  assumes "handleUpsertVocab d data newId now = (Inr vocab, d1)"
    and "u_vocabId data = None"
    and "distinct (map vocabId (vocabulary d))"
    and "getVocab d (vocabId vocab) = Some v"
  shows "\<exists>v1. getVocab d1 (vocabId vocab) = Some v1 \<and> scoreLocked v1 = scoreLocked v"
proof (cases "vocabByLemma d (normalizeLemma (strOr (u_lemma data) []))
                (strOr (u_language data) ''en'')")
  case None
  with assms(1,2) have "d1 = d\<lparr>vocabulary := tbl_add (vocabulary d) vocab\<rparr>"
    by (auto simp: handleUpsertVocab_def Let_def split: if_splits)
  then have "getVocab d1 (vocabId vocab) = Some v"
    using assms(4) by (simp add: getVocab_def tbl_get_add_old)
  then show ?thesis by simp
next
  case (Some found)
  with assms(1,2) have vocab: "vocabId vocab = vocabId found"
      "scoreLocked vocab = scoreLocked found"
      "d1 = d\<lparr>vocabulary := tbl_put vocabId (vocabulary d) vocab\<rparr>"
    by (auto simp: handleUpsertVocab_def Let_def split: if_splits)
  have "getVocab d (vocabId found) = Some found"
    using Some assms(3) by (intro getVocab_distinct) (auto dest: vocabByLemma_SomeD)
  then have "v = found" using assms(4) vocab(1) by simp
  moreover have "getVocab d1 (vocabId vocab) = Some vocab"
    by (simp add: vocab(3) getVocab_def tbl_get_put_same)
  ultimately show ?thesis using vocab(2) by simp
qed

lemma resolveVocab_keeps_lock:
  assumes "resolveVocab d data nv now = Inr (vid, surf, d1)"
    and "distinct (map vocabId (vocabulary d))"
    and "getVocab d vid = Some v"
  shows "\<exists>v1. getVocab d1 vid = Some v1 \<and> scoreLocked v1 = scoreLocked v"
proof (cases "strOr (p_vocabId data) [] = []")
  case False
  with assms(1) have "d1 = d"
    by (auto simp: resolveVocab_def split: if_splits option.splits)
  then show ?thesis using assms(3) by simp
next
  case True
  with assms(1) obtain vocab where
    up: "handleUpsertVocab d
           \<lparr>u_vocabId = None,
            u_lemma = Some (normalizeLemma (strOr (p_word data) [])),
            u_surface = p_word data,
            u_language = Some (strOr (p_language data) ''en''),
            u_meaning = None, u_proficiency = None, u_sourceTraceId = None\<rparr>
           nv now = (Inr vocab, d1)" and vid: "vid = vocabId vocab"
    by (auto simp: resolveVocab_def split: if_splits prod.splits sum.splits)
  show ?thesis
    using handleUpsertVocab_keeps_lock [OF up _ assms(2)] assms(3) vid by simp
qed

section \<open>Rating a locked word\<close>

text \<open>
  Claim C9. For every existing vocabulary entry with \<open>scoreLocked = true\<close>,
  \<open>handleRateWord\<close> rejects with a validation error and returns the state it was given:
  no rating encounter is inserted and no field of any entry changes.
\<close>

theorem handleRateWord_locked_rejected:
  assumes "getVocab d vid = Some v" and "scoreLocked v = Some True"
  shows "\<exists>msg. handleRateWord d (Some vid) rating newId now
                = (Inl (AppError VALIDATION_ERROR msg), d)"
  using assms by (simp add: handleRateWord_def truthy_def)

theorem handleRateWord_locked_rejected_witness:
  "getVocab lockedDb ''v1'' = Some lockedThe \<and> scoreLocked lockedThe = Some True
   \<and> (\<exists>msg. handleRateWord lockedDb (Some ''v1'') ''known'' ''e9'' 5000
               = (Inl (AppError VALIDATION_ERROR msg), lockedDb))"
proof -
  have h1: "getVocab lockedDb ''v1'' = Some lockedThe" by code_simp
  have h2: "scoreLocked lockedThe = Some True" by code_simp
  show ?thesis
    using h1 h2 handleRateWord_locked_rejected [OF h1 h2, of "''known''" "''e9''" 5000] by simp
qed

section \<open>Noise synchronisation is memoised\<close>

lemma settings_updateVocab [simp]: "settings (updateVocab d vid f) = settings d"
  by (simp add: updateVocab_def)

lemma settings_unlock_fold:
  "settings (fst (foldl (unlockStep target now) acc vs)) = settings (fst acc)"
  by (induction vs arbitrary: acc) (simp_all add: unlockStep_def)

lemma settings_lock_fold:
  "settings (fst (foldl (lockStep uuid now) acc ls)) = settings (fst acc)"
proof (induction ls arbitrary: acc)
  case Nil
  then show ?case by simp
next
  case (Cons l ls)
  have "settings (fst (lockStep uuid now acc l)) = settings (fst acc)"
    by (cases acc) (simp add: lockStep_def split: option.splits)
  then show ?case using Cons.IH by simp
qed

lemma sync_settings:
  "settings (fst (syncNoiseWordsFromSettings uuid now force d))
   = (if \<not> force \<and> noiseConfigHash (settings d) = Some (noiseCfgKey (settings d))
      then settings d
      else (settings d)\<lparr>noiseConfigHash := Some (noiseCfgKey (settings d))\<rparr>)"
  by (simp add: syncNoiseWordsFromSettings_def Let_def case_prod_beta
      settings_unlock_fold settings_lock_fold)

lemma noiseCfgKey_hash [simp]:
  "noiseCfgKey (st\<lparr>noiseConfigHash := h\<rparr>) = noiseCfgKey st"
  by (simp add: noiseCfgKey_def)

lemma sync_hash_current:
  "noiseConfigHash (settings (fst (syncNoiseWordsFromSettings uuid now force d)))
   = Some (noiseCfgKey (settings (fst (syncNoiseWordsFromSettings uuid now force d))))"
  by (simp add: sync_settings)

lemma sync_unforced_noop:
  "noiseConfigHash (settings d) = Some (noiseCfgKey (settings d))
   \<Longrightarrow> syncNoiseWordsFromSettings uuid now False d = (d, 0)"
  by (simp add: syncNoiseWordsFromSettings_def Let_def)

lemma sync_forced_writes:
  "1 \<le> snd (syncNoiseWordsFromSettings uuid now True d)"
  by (simp add: syncNoiseWordsFromSettings_def Let_def case_prod_beta)

text \<open>
  Claim C7. A non-forced \<open>syncNoiseWordsFromSettings\<close> that directly follows another
  call (forced or not), so that the noise wordbank id and the two manual lists are the
  ones the first call saw, issues no write and returns the state unchanged.
\<close>

theorem syncNoise_twice_no_writes:
  "syncNoiseWordsFromSettings uuid2 now2 False
     (fst (syncNoiseWordsFromSettings uuid1 now1 force d))
   = (fst (syncNoiseWordsFromSettings uuid1 now1 force d), 0)"
  by (rule sync_unforced_noop) (rule sync_hash_current)

section \<open>Auto-unlock after two lookups\<close>

text \<open>
  Claim C10. When \<open>handleRecordEncounter\<close> inserts an encounter with source \<open>lookup\<close>
  for a score-locked entry (vocabulary ids being unique, as the primary key makes them)
  and the entry then has at least two lookup encounters, the same call unlocks the entry:
  \<open>scoreLocked = false\<close>, \<open>familiarityScore = 0\<close>, \<open>isKnown = false\<close>,
  \<open>noiseManaged = false\<close>.
\<close>

theorem recordEncounter_second_lookup_unlocks:
  assumes res: "handleRecordEncounter urlHost d data newVocabId newEncId now = (Inr enc, d')"
    and ins: "encounters d' = encounters d @ [enc]"
    and src: "source enc = ''lookup''"
    and keys: "distinct (map vocabId (vocabulary d))"
    and locked: "getVocab d (e_vocabId enc) = Some v" "scoreLocked v = Some True"
    and cnt: "2 \<le> length (filter (\<lambda>e. source e = ''lookup'') (encountersOf d' (e_vocabId enc)))"
  shows "\<exists>v'. getVocab d' (e_vocabId enc) = Some v'
              \<and> scoreLocked v' = Some False \<and> familiarityScore v' = Some (Num 0)
              \<and> isKnown v' = Some False \<and> noiseManaged v' = Some False"
proof -
  from res obtain vid surf d1 host where
    rv: "resolveVocab d data newVocabId now = Inr (vid, surf, d1)"
    and host: "urlHost (strOr (p_pageUrl data) []) = Some host"
    by (auto simp: handleRecordEncounter_def split: if_splits sum.splits option.splits)
  have enc1: "encounters d1 = encounters d" using rv by (rule resolveVocab_encounters)
  show ?thesis
  proof (cases "recentEncounter d1 vid data now")
    case (Some r)
    with res rv host have "length (encounters d') = length (encounters d1)"
      by (auto simp: handleRecordEncounter_def tbl_update_def split: if_splits)
    then show ?thesis using ins enc1 by simp
  next
    case None
    define encounter where "encounter =
       \<lparr>encounterId = newEncId, e_vocabId = vid, e_surface = surf,
        normalizedSurface = normalizeLemma surf,
        pageUrl = strOr (p_pageUrl data) [], pageHost = host,
        pageTitle = p_pageTitle data, contextSentence = p_contextSentence data,
        source = strOr (p_source data) ''scan'',
        e_createdAt = now, e_updatedAt = now\<rparr>"
    define d2 where "d2 = d1\<lparr>encounters := tbl_add (encounters d1) encounter\<rparr>"
    from None res rv host have e: "enc = encounter"
      and d': "d' = autoUnlock (recalcVocabScore d2 vid now) (source encounter) vid now"
      by (auto simp: handleRecordEncounter_def Let_def encounter_def d2_def split: if_splits)
    have vid: "e_vocabId enc = vid" by (simp add: e encounter_def)
    obtain v1 where v1: "getVocab d1 vid = Some v1" "scoreLocked v1 = Some True"
      using resolveVocab_keeps_lock [OF rv keys] locked vid by metis
    have g2: "getVocab d2 vid = Some v1" using v1 by (simp add: d2_def)
    have d3: "recalcVocabScore d2 vid now = d2" using g2 v1(2) by (rule recalc_locked)
    have d'2: "d' = autoUnlock d2 ''lookup'' vid now" using d' d3 src e by simp
    have "encountersOf d' vid = encountersOf d2 vid"
      by (simp add: d'2 encountersOf_def)
    then have c2: "2 \<le> length (filter (\<lambda>e. source e = ''lookup'') (encountersOf d2 vid))"
      using cnt vid by simp
    show ?thesis
      unfolding vid d'2 using autoUnlock_lookup [OF g2 v1(2) c2, of now] by simp
  qed
qed

theorem recordEncounter_second_lookup_unlocks_witness:
  "handleRecordEncounter (\<lambda>u. Some ''b.example'') lockedDb lookupPayload ''v9'' ''e2'' 5000
     = (Inr secondLookup, unlockedDb)
   \<and> encounters unlockedDb = encounters lockedDb @ [secondLookup]
   \<and> source secondLookup = ''lookup''
   \<and> distinct (map vocabId (vocabulary lockedDb))
   \<and> getVocab lockedDb (e_vocabId secondLookup) = Some lockedThe
   \<and> scoreLocked lockedThe = Some True
   \<and> 2 \<le> length (filter (\<lambda>e. source e = ''lookup'')
                    (encountersOf unlockedDb (e_vocabId secondLookup)))
   \<and> (\<exists>v'. getVocab unlockedDb (e_vocabId secondLookup) = Some v'
            \<and> scoreLocked v' = Some False \<and> familiarityScore v' = Some (Num 0)
            \<and> isKnown v' = Some False \<and> noiseManaged v' = Some False)"
proof -
  have res: "handleRecordEncounter (\<lambda>u. Some ''b.example'') lockedDb lookupPayload
               ''v9'' ''e2'' 5000 = (Inr secondLookup, unlockedDb)"
    by code_simp
  have ins: "encounters unlockedDb = encounters lockedDb @ [secondLookup]" by code_simp
  have src: "source secondLookup = ''lookup''" by code_simp
  have keys: "distinct (map vocabId (vocabulary lockedDb))" by code_simp
  have l1: "getVocab lockedDb (e_vocabId secondLookup) = Some lockedThe" by code_simp
  have l2: "scoreLocked lockedThe = Some True" by code_simp
  have cnt: "2 \<le> length (filter (\<lambda>e. source e = ''lookup'')
                          (encountersOf unlockedDb (e_vocabId secondLookup)))"
    by code_simp
  show ?thesis
    using res ins src keys l1 l2 cnt
      recordEncounter_second_lookup_unlocks [OF res ins src keys l1 l2 cnt]
    by simp
qed

section \<open>Card drawing\<close>

subsection \<open>slice and sorting\<close>

lemma length_slice0: "0 \<le> n \<Longrightarrow> length (slice0 n xs) = min (nat n) (length xs)"
  by (simp add: slice0_def min_def)

lemma slice0_take: "0 \<le> n \<Longrightarrow> slice0 n xs = take (nat n) xs"
  by (simp add: slice0_def)

lemma set_slice0: "set (slice0 n xs) \<subseteq> set xs"
  by (auto simp: slice0_def dest: in_set_takeD)

lemma distinct_map_take: "distinct (map f xs) \<Longrightarrow> distinct (map f (take n xs))"
  by (simp add: take_map [symmetric])

lemma distinct_map_slice0: "distinct (map f xs) \<Longrightarrow> distinct (map f (slice0 n xs))"
  by (simp add: slice0_def distinct_map_take)

lemma distinct_map_sort_key:
  "distinct (map f xs) \<Longrightarrow> distinct (map f (sort_key g xs))"
  by (simp add: distinct_map)

text \<open>
  Sorting a list that is ordered by \<open>h\<close> stably by \<open>g\<close> orders it by the pair
  \<open>(g, h)\<close>.
\<close>

lemma sorted_pair_insort_key:
  fixes g :: "'a \<Rightarrow> 'b::linorder" and h :: "'a \<Rightarrow> 'c::linorder"
  assumes "sorted (map (\<lambda>y. (g y, h y)) ys)" and "\<forall>y \<in> set ys. h x \<le> h y"
  shows "sorted (map (\<lambda>y. (g y, h y)) (insort_key g x ys))"
  using assms
proof (induction ys)
  case Nil
  then show ?case by simp
next
  case (Cons y ys)
  show ?case
  proof (cases "g x \<le> g y")
    case True
    have "(g x, h x) \<le> (g y, h y)"
      using True Cons.prems(2) by (auto simp: less_eq_prod_def)
    moreover have "\<forall>z \<in> set ys. (g y, h y) \<le> (g z, h z)"
      using Cons.prems(1) by simp
    ultimately show ?thesis
      using True Cons.prems(1) by (auto intro: order_trans)
  next
    case False
    then have lt: "(g y, h y) \<le> (g x, h x)" by (auto simp: less_eq_prod_def)
    have IH: "sorted (map (\<lambda>y. (g y, h y)) (insort_key g x ys))"
      using Cons by simp
    have "\<forall>z \<in> set (insort_key g x ys). (g y, h y) \<le> (g z, h z)"
      using Cons.prems(1) lt by (auto simp: set_insort_key)
    then show ?thesis using False IH by simp
  qed
qed

lemma sorted_pair_sort_key:
  fixes g :: "'a \<Rightarrow> 'b::linorder" and h :: "'a \<Rightarrow> 'c::linorder"
  assumes "sorted (map h xs)"
  shows "sorted (map (\<lambda>y. (g y, h y)) (sort_key g xs))"
  using assms
proof (induction xs)
  case Nil
  then show ?case by simp
next
  case (Cons x xs)
  have "\<forall>y \<in> set (sort_key g xs). h x \<le> h y" using Cons.prems by simp
  then show ?case
    using Cons by (simp add: sorted_pair_insort_key)
qed

subsection \<open>The eligible items\<close>

lemma js_lt_iff: "js_lt s b = (\<exists>r. s = Num r \<and> r < b)"
  by (cases s) auto

lemma scoredEligible_vocabs:
  "map i_vocab (scoredEligible d ex now)
   = filter (\<lambda>v. vocabId v \<notin> set ex \<and> js_lt (realTimeScore d v) KNOWN_THRESHOLD)
       (drawCandidates d)"
proof -
  have "map i_vocab (List.map_filter f xs)
        = filter (\<lambda>v. vocabId v \<notin> set ex \<and> js_lt (realTimeScore d v) KNOWN_THRESHOLD) xs"
    if "f = (\<lambda>v. if vocabId v \<in> set ex then None
            else (case realTimeScore d v of
                    NaN \<Rightarrow> None
                  | Num sc \<Rightarrow> if sc < KNOWN_THRESHOLD
                             then Some \<lparr>i_vocab = v, i_score = sc, i_priority = priorityOf now v sc\<rparr>
                             else None))" for f xs
    unfolding that
    by (induction xs) (auto simp: List.map_filter_simps js_lt_iff split: jsnum.splits)
  then show ?thesis by (simp add: scoredEligible_def)
qed

lemma scoredEligible_items:
  assumes "i \<in> set (scoredEligible d ex now)"
  shows "realTimeScore d (i_vocab i) = Num (i_score i)
         \<and> i_score i < KNOWN_THRESHOLD
         \<and> i_priority i = priorityOf now (i_vocab i) (i_score i)"
  using assms
  by (auto simp: scoredEligible_def List.map_filter_def split: if_splits jsnum.splits)

lemma realTimeScore_scoreAtDraw: "realTimeScore d v = scoreAtDraw d v"
  by (simp add: realTimeScore_def scoreAtDraw_def encountersOf_def tbl_toArray_def
      traceMultiplier_def truthy_def)

lemma drawEligible_toArray:
  "filter (\<lambda>v. vocabId v \<notin> set ex \<and> js_lt (realTimeScore d v) KNOWN_THRESHOLD)
     (drawCandidates d)
   = sort_key vocabId (drawEligible d ex)"
  by (simp add: drawCandidates_def drawEligible_def tbl_toArray_def filter_sort conj_ac
      realTimeScore_scoreAtDraw KNOWN_THRESHOLD_def)

lemma length_scoredEligible:
  "length (scoredEligible d ex now) = length (drawEligible d ex)"
proof -
  have "length (scoredEligible d ex now) = length (map i_vocab (scoredEligible d ex now))"
    by simp
  also have "\<dots> = length (drawEligible d ex)"
    by (simp only: scoredEligible_vocabs drawEligible_toArray length_sort)
  finally show ?thesis .
qed

lemma scoredEligible_ids:
  "map (\<lambda>i. vocabId (i_vocab i)) (scoredEligible d ex now)
   = map vocabId (sort_key vocabId (drawEligible d ex))"
proof -
  have "map (\<lambda>i. vocabId (i_vocab i)) (scoredEligible d ex now)
        = map vocabId (map i_vocab (scoredEligible d ex now))"
    by simp
  then show ?thesis by (simp only: scoredEligible_vocabs drawEligible_toArray)
qed

lemma distinct_drawEligible:
  "distinct (map vocabId (vocabulary d)) \<Longrightarrow> distinct (map vocabId (drawEligible d ex))"
  by (simp add: drawEligible_def distinct_map_filter)

lemma distinct_scoredEligible:
  "distinct (map vocabId (vocabulary d))
   \<Longrightarrow> distinct (map (\<lambda>i. vocabId (i_vocab i)) (scoredEligible d ex now))"
  by (simp add: scoredEligible_ids distinct_map_sort_key distinct_drawEligible)

lemma sorted_scoredEligible:
  "sorted (map (\<lambda>i. vocabId (i_vocab i)) (scoredEligible d ex now))"
  by (simp add: scoredEligible_ids sorted_sort_key)

subsection \<open>Selection\<close>

lemma map_fst_keyed:
  "map fst (map (\<lambda>(k, item). (item, f k item)) (enumerate n items)) = items"
  by (induction items arbitrary: n) simp_all

lemma length_drawSelected:
  assumes "0 \<le> countOf payload"
  shows "length (drawSelected d payload pow random now)
         = min (nat (countOf payload)) (length (drawEligible d (excludedOf payload)))"
  using assms
  by (simp add: drawSelected_def Let_def pickTopN_def weightedSampleWithoutReplacement_def
      length_slice0 length_scoredEligible)

lemma distinct_drawSelected:
  assumes "distinct (map vocabId (vocabulary d))"
  shows "distinct (map (\<lambda>i. vocabId (i_vocab i)) (drawSelected d payload pow random now))"
proof (cases "dc_mode payload = Some ''auto''")
  case True
  then show ?thesis
    using distinct_scoredEligible [OF assms]
    by (simp add: drawSelected_def Let_def pickTopN_def distinct_map_slice0
        distinct_map_sort_key)
next
  case False
  define scored where "scored = scoredEligible d (excludedOf payload) now"
  define keyed where "keyed = map (\<lambda>(k, item).
      (item, sampleKey pow (rngValue (dc_seed payload) random k) (i_priority item)))
      (enumerate 0 scored)"
  have "map (\<lambda>x. vocabId (i_vocab (fst x))) keyed = map (\<lambda>i. vocabId (i_vocab i)) (map fst keyed)"
    by simp
  also have "\<dots> = map (\<lambda>i. vocabId (i_vocab i)) scored"
    unfolding keyed_def by (simp only: map_fst_keyed)
  finally have "distinct (map (\<lambda>x. vocabId (i_vocab (fst x))) keyed)"
    using distinct_scoredEligible [OF assms] by (simp add: scored_def)
  then have "distinct (map (\<lambda>x. vocabId (i_vocab (fst x)))
                (slice0 (countOf payload) (sort_key (\<lambda>x. - snd x) keyed)))"
    by (intro distinct_map_slice0 distinct_map_sort_key)
  then show ?thesis
    using False
    by (simp add: drawSelected_def Let_def weightedSampleWithoutReplacement_def
        scored_def keyed_def comp_def)
qed

text \<open>
  Claim C5 (as amended). With unique vocabulary ids, for every count \<open>N \<ge> 0\<close>, every
  mode, seed and exclusion list, and whatever \<open>Math.pow\<close> and \<open>Math.random\<close> return,
  \<open>handleDrawCard\<close> returns exactly \<open>min(N, eligibleCount)\<close> cards with pairwise
  distinct vocabulary ids, where the eligible entries are those not deleted, not
  score-locked, not known, not excluded, and whose score at the time of the draw, the
  weighted score of their encounters summed in doubles in the order of the encounter
  ids, is below 100.
\<close>

theorem handleDrawCard_count_distinct:
  assumes "distinct (map vocabId (vocabulary d))" and "0 \<le> countOf payload"
  shows "length (handleDrawCard d payload pow random now)
           = min (nat (countOf payload)) (length (drawEligible d (excludedOf payload)))
         \<and> distinct (map c_vocabId (handleDrawCard d payload pow random now))"
  using length_drawSelected [OF assms(2)] distinct_drawSelected [OF assms(1)]
  by (simp add: handleDrawCard_def toCard_def comp_def)

subsection \<open>Auto mode\<close>

lemma srsDueOf_spec: "srsDueOf now v = specSrsDue now v"
  by (auto simp: srsDueOf_def specSrsDue_def Let_def split: option.splits)

lemma priorityOf_spec: "priorityOf now v sc = specPriority now v sc"
  by (simp add: priorityOf_def specPriority_def Let_def srsDueOf_spec KNOWN_THRESHOLD_def
      dmul_def mult.commute)

lemma sorted_wrt_distinct_map:
  "sorted_wrt P xs \<Longrightarrow> distinct (map f xs) \<Longrightarrow> sorted_wrt (\<lambda>x y. P x y \<and> f x \<noteq> f y) xs"
  by (induction xs) auto

lemma ranked_sort_key:
  assumes "sorted (map (\<lambda>i. vocabId (i_vocab i)) items)"
    and "distinct (map (\<lambda>i. vocabId (i_vocab i)) items)"
  shows "sorted_wrt rankedBefore (sort_key (\<lambda>i. - i_priority i) items)"
proof -
  let ?S = "sort_key (\<lambda>i. - i_priority i) items"
  have "sorted (map (\<lambda>i. (- i_priority i, vocabId (i_vocab i))) ?S)"
    using assms(1) by (rule sorted_pair_sort_key)
  then have "sorted_wrt (\<lambda>a b. (- i_priority a, vocabId (i_vocab a))
                               \<le> (- i_priority b, vocabId (i_vocab b))) ?S"
    by (simp add: sorted_map)
  moreover have "distinct (map (\<lambda>i. vocabId (i_vocab i)) ?S)"
    using assms(2) by (rule distinct_map_sort_key)
  ultimately have "sorted_wrt (\<lambda>a b. (- i_priority a, vocabId (i_vocab a))
                                 \<le> (- i_priority b, vocabId (i_vocab b))
                               \<and> vocabId (i_vocab a) \<noteq> vocabId (i_vocab b)) ?S"
    by (rule sorted_wrt_distinct_map)
  then show ?thesis
    by (rule sorted_wrt_mono_rel [rotated]) (auto simp: rankedBefore_def less_eq_prod_def)
qed

text \<open>
  Claim C6 (as amended). In auto mode, with a count \<open>N \<ge> 0\<close> and unique vocabulary
  ids, the selected items are the first \<open>min(N, eligibleCount)\<close> of the eligible items
  ranked by descending priority, entries of equal priority in ascending order of their
  ids. The eligible entries are those of claim C5, each with its score at the time of
  the draw; the priority of an item is
  \<open>0.45*srsDue + 0.25*difficulty + 0.20*urgency + 0.10*recency\<close> as the specification
  defines the four factors, computed in doubles on that score; and the selection depends
  neither on \<open>Math.pow\<close> nor on the random source.
\<close>

theorem drawSelected_auto_ranked:
  assumes "dc_mode payload = Some ''auto''" and "0 \<le> countOf payload"
    and "distinct (map vocabId (vocabulary d))"
  shows "\<exists>rest.
           sorted_wrt rankedBefore (drawSelected d payload pow random now @ rest)
           \<and> set (drawSelected d payload pow random now @ rest)
               = set (scoredEligible d (excludedOf payload) now)
           \<and> length (drawSelected d payload pow random now)
               = min (nat (countOf payload)) (length (drawEligible d (excludedOf payload)))
           \<and> map i_vocab (scoredEligible d (excludedOf payload) now)
               = sort_key vocabId (drawEligible d (excludedOf payload))
           \<and> (\<forall>i \<in> set (scoredEligible d (excludedOf payload) now).
                 scoreAtDraw d (i_vocab i) = Num (i_score i)
                 \<and> i_priority i = specPriority now (i_vocab i) (i_score i))
           \<and> drawSelected d payload pow' random' now = drawSelected d payload pow random now"
proof -
  let ?E = "scoredEligible d (excludedOf payload) now"
  let ?S = "sort_key (\<lambda>i. - i_priority i) ?E"
  let ?n = "nat (countOf payload)"
  have sel: "drawSelected d payload p r now = take ?n ?S" for p r
    using assms(1,2) by (simp add: drawSelected_def Let_def pickTopN_def slice0_take)
  have ranked: "sorted_wrt rankedBefore ?S"
    using sorted_scoredEligible distinct_scoredEligible [OF assms(3)]
    by (rule ranked_sort_key)
  have "sorted_wrt rankedBefore (drawSelected d payload pow random now @ drop ?n ?S)"
    using ranked by (simp add: sel)
  moreover have "set (drawSelected d payload pow random now @ drop ?n ?S) = set ?E"
    by (simp only: sel append_take_drop_id set_sort)
  moreover have "length (drawSelected d payload pow random now)
                 = min ?n (length (drawEligible d (excludedOf payload)))"
    using assms(2) by (rule length_drawSelected)
  moreover have "map i_vocab ?E = sort_key vocabId (drawEligible d (excludedOf payload))"
    by (simp only: scoredEligible_vocabs drawEligible_toArray)
  moreover have "\<forall>i \<in> set ?E. scoreAtDraw d (i_vocab i) = Num (i_score i)
                   \<and> i_priority i = specPriority now (i_vocab i) (i_score i)"
    using scoredEligible_items by (auto simp: priorityOf_spec realTimeScore_scoreAtDraw)
  moreover have "drawSelected d payload pow' random' now = drawSelected d payload pow random now"
    by (simp only: sel)
  ultimately show ?thesis by blast
qed



subsection \<open>The review store\<close>

lemma review_encounters_sorted:
  "sort_key encounterId (encounters reviewDb) = encounters reviewDb"
  by (rule sort_key_id_if_sorted)
     (simp add: reviewDb_def encountersFor_def encounterOf_def rowIds_def sourcesA_def
        sourcesB_def)

lemmas score_defs = calculateWeightedScore_def points_def weightRead_def SCORING_WEIGHTS_def
  traceMultiplier_def truthy_def

lemma review_scores:
  "scoreAtDraw reviewDb reviewA = Num (3518437208883199 / 35184372088832)"
  "scoreAtDraw reviewDb reviewB = Num 100"
  "scoreAtDraw reviewDb reviewC = Num (1351079888211149 / 2251799813685248)"
  "scoreAtDraw reviewDb reviewE = Num 0"
  unfolding scoreAtDraw_def review_encounters_sorted
  by (simp_all add: reviewDb_def encountersFor_def encounterOf_def rowIds_def sourcesA_def
        sourcesB_def reviewA_def reviewB_def reviewC_def reviewE_def plainEntry_def
        score_defs fl_defs)

lemma review_candidates:
  "drawCandidates reviewDb = [reviewA, reviewB, reviewC, reviewE]"
  by (simp add: drawCandidates_def tbl_toArray_def reviewDb_def reviewA_def reviewB_def
      reviewC_def reviewD_def reviewE_def plainEntry_def truthy_def truthyNum_def)

lemma review_ids:
  "vocabId reviewA = ''a''" "vocabId reviewB = ''b''" "vocabId reviewC = ''c''"
  "vocabId reviewD = ''d''" "vocabId reviewE = ''e''"
  by (simp_all add: reviewA_def reviewB_def reviewC_def reviewD_def reviewE_def plainEntry_def)

lemma review_priorities:
  "priorityOf reviewNow reviewA (3518437208883199 / 35184372088832)
   = 3467771713075283 / 9007199254740992"
  "priorityOf reviewNow reviewC (1351079888211149 / 2251799813685248)
   = 6967068623542157 / 9007199254740992"
  unfolding priorityOf_def srsDueOf_def Let_def
  by (simp_all add: reviewA_def reviewC_def plainEntry_def reviewNow_def msPerDay_def
      KNOWN_THRESHOLD_def truthy_def fl_defs)

lemma review_scored:
  "scoredEligible reviewDb [''e''] reviewNow
   = [\<lparr>i_vocab = reviewA, i_score = 3518437208883199 / 35184372088832,
        i_priority = 3467771713075283 / 9007199254740992\<rparr>,
      \<lparr>i_vocab = reviewC, i_score = 1351079888211149 / 2251799813685248,
        i_priority = 6967068623542157 / 9007199254740992\<rparr>]"
  by (simp add: scoredEligible_def review_candidates List.map_filter_simps review_ids
      realTimeScore_scoreAtDraw review_scores review_priorities KNOWN_THRESHOLD_def)

lemma review_vocabulary:
  "vocabulary reviewDb = [reviewC, reviewA, reviewD, reviewB, reviewE]"
  by (simp add: reviewDb_def)

lemma review_flags:
  "map (\<lambda>v. (truthyNum (deletedAt v), truthy (scoreLocked v), truthy (isKnown v)))
     [reviewC, reviewA, reviewD, reviewB, reviewE]
   = [(False, False, False), (False, False, False), (False, True, True),
      (False, False, False), (False, False, False)]"
  by (simp add: reviewA_def reviewB_def reviewC_def reviewD_def reviewE_def plainEntry_def
        truthy_def truthyNum_def)

lemma review_eligible:
  "map vocabId (drawEligible reviewDb [''e'']) = [''c'', ''a'']"
  "map vocabId (specEligible reviewDb [''e'']) = [''c'', ''a'', ''b'']"
  using review_flags
  by (simp_all add: drawEligible_def specEligible_def review_vocabulary review_scores
      review_ids)

lemma review_cards:
  "map (\<lambda>c. (c_vocabId c, weightedScore c, c_isTraced c, c_priority c))
     (map toCard
        [\<lparr>i_vocab = reviewA, i_score = 3518437208883199 / 35184372088832,
           i_priority = 3467771713075283 / 9007199254740992\<rparr>,
         \<lparr>i_vocab = reviewC, i_score = 1351079888211149 / 2251799813685248,
           i_priority = 6967068623542157 / 9007199254740992\<rparr>])
   = [(''a'', 3518437208883199 / 35184372088832, False, 3512807709348987 / 9007199254740992),
      (''c'', 1351079888211149 / 2251799813685248, True, 1733885856537641 / 2251799813685248)]"
  by (simp add: toCard_def reviewA_def reviewC_def plainEntry_def fl_defs)

lemma rng_seed_42:
  "rngValue (Some 42) random 0 = 1083814273 / 4294967296"
  "rngValue (Some 42) random (Suc 0) = 378494188 / 4294967296"
  by (simp_all add: rngValue_def fl_defs)

lemma review_shuffle:
  "drawSelected reviewDb (reviewPayload 5 ''shuffle'') exPow random reviewNow
   = [\<lparr>i_vocab = reviewA, i_score = 3518437208883199 / 35184372088832,
        i_priority = 3467771713075283 / 9007199254740992\<rparr>,
      \<lparr>i_vocab = reviewC, i_score = 1351079888211149 / 2251799813685248,
        i_priority = 6967068623542157 / 9007199254740992\<rparr>]"
  by (simp add: drawSelected_def weightedSampleWithoutReplacement_def Let_def
      reviewPayload_def excludedOf_def countOf_def review_scored sampleKey_def exPow_def
      rng_seed_42 slice0_def)

lemma review_auto:
  "drawSelected reviewDb (reviewPayload 3 ''auto'') pow random reviewNow
   = [\<lparr>i_vocab = reviewC, i_score = 1351079888211149 / 2251799813685248,
        i_priority = 6967068623542157 / 9007199254740992\<rparr>,
      \<lparr>i_vocab = reviewA, i_score = 3518437208883199 / 35184372088832,
        i_priority = 3467771713075283 / 9007199254740992\<rparr>]"
  by (simp add: drawSelected_def reviewPayload_def excludedOf_def countOf_def review_scored
      pickTopN_def slice0_def Let_def)


theorem handleDrawCard_count_distinct_witness:
  "distinct (map vocabId (vocabulary reviewDb)) \<and> 0 \<le> countOf (reviewPayload 5 ''shuffle'')
   \<and> map vocabId (drawEligible reviewDb (excludedOf (reviewPayload 5 ''shuffle'')))
       = [''c'', ''a'']
   \<and> map (\<lambda>c. (c_vocabId c, weightedScore c, c_isTraced c, c_priority c))
         (handleDrawCard reviewDb (reviewPayload 5 ''shuffle'') exPow (\<lambda>k. 0) reviewNow)
       = [(''a'', 3518437208883199 / 35184372088832, False,
           3512807709348987 / 9007199254740992),
          (''c'', 1351079888211149 / 2251799813685248, True,
           1733885856537641 / 2251799813685248)]
   \<and> length (handleDrawCard reviewDb (reviewPayload 5 ''shuffle'') exPow (\<lambda>k. 0) reviewNow)
       = min (nat (countOf (reviewPayload 5 ''shuffle'')))
           (length (drawEligible reviewDb (excludedOf (reviewPayload 5 ''shuffle''))))
   \<and> distinct (map c_vocabId
                  (handleDrawCard reviewDb (reviewPayload 5 ''shuffle'') exPow (\<lambda>k. 0) reviewNow))"
proof -
  have h1: "distinct (map vocabId (vocabulary reviewDb))"
    by (simp add: review_vocabulary review_ids)
  have h2: "0 \<le> countOf (reviewPayload 5 ''shuffle'')"
    by (simp add: countOf_def reviewPayload_def)
  have e: "map vocabId (drawEligible reviewDb (excludedOf (reviewPayload 5 ''shuffle'')))
           = [''c'', ''a'']"
    by (simp add: excludedOf_def reviewPayload_def review_eligible)
  have cards: "map (\<lambda>c. (c_vocabId c, weightedScore c, c_isTraced c, c_priority c))
         (handleDrawCard reviewDb (reviewPayload 5 ''shuffle'') exPow (\<lambda>k. 0) reviewNow)
       = [(''a'', 3518437208883199 / 35184372088832, False,
           3512807709348987 / 9007199254740992),
          (''c'', 1351079888211149 / 2251799813685248, True,
           1733885856537641 / 2251799813685248)]"
    unfolding handleDrawCard_def review_shuffle by (rule review_cards)
  show ?thesis
    using h1 h2 e cards
      handleDrawCard_count_distinct [OF h1 h2, of exPow "\<lambda>k. 0" reviewNow]
    by simp
qed

lemma ratedDbUnlocked_vocabulary:
  "map (\<lambda>v. (vocabId v, deletedAt v, scoreLocked v, isKnown v, isTraced v,
              familiarityScore v))
     (vocabulary ratedDbUnlocked)
   = [(''v1'', None, Some False, Some False, None, Some (Num 0))]"
  by code_simp

lemma ratedDbUnlocked_sources:
  "map source (filter (\<lambda>e. e_vocabId e = ''v1'')
                 (sort_key encounterId (encounters ratedDbUnlocked))) = sourcesB"
  by code_simp

lemma ratedDbUnlocked_scores:
  "list_all (\<lambda>v. scoreAtDraw ratedDbUnlocked v = Num 100) (vocabulary ratedDbUnlocked)"
proof -
  obtain v where v: "vocabulary ratedDbUnlocked = [v]" "vocabId v = ''v1''" "isTraced v = None"
    using ratedDbUnlocked_vocabulary by (auto simp: map_eq_Cons_conv)
  have "scoreAtDraw ratedDbUnlocked v = Num 100"
    by (simp add: scoreAtDraw_def v ratedDbUnlocked_sources sourcesB_def score_defs fl_defs)
  then show ?thesis by (simp add: v)
qed

lemma tieDb_eligible: "length (drawEligible tieDb []) = 3"
  by (simp add: drawEligible_def scoreAtDraw_def tieDb_def plainEntry_def
      calculateWeightedScore_def truthy_def truthyNum_def)

text \<open>
  The claim as stated fails: an entry that was unlocked by hand keeps its encounters, so
  its stored flags make it eligible in the specification's sense while its score of 100
  at the time of the draw keeps it out; and a negative count takes all but the last
  \<open>|N|\<close> items.
\<close>

theorem handleDrawCard_count_counterexample:
  "length (handleDrawCard ratedDbUnlocked (drawPayload 1 ''shuffle'') exPow (\<lambda>k. 0) 9000) = 0
   \<and> min (nat 1) (length (specEligible ratedDbUnlocked (excludedOf (drawPayload 1 ''shuffle''))))
       = 1
   \<and> length (handleDrawCard tieDb (drawPayload (- 1) ''auto'') exPow (\<lambda>k. 0) 9000) = 2
   \<and> min (- 1) (int (length (specEligible tieDb (excludedOf (drawPayload (- 1) ''auto''))))) = - 1"
proof -
  have "\<forall>v \<in> set (vocabulary ratedDbUnlocked). scoreAtDraw ratedDbUnlocked v = Num 100"
    using ratedDbUnlocked_scores by (simp add: list_all_iff)
  then have "drawEligible ratedDbUnlocked (excludedOf (drawPayload 1 ''shuffle'')) = []"
    by (auto simp: drawEligible_def filter_empty_conv)
  moreover have "0 \<le> countOf (drawPayload 1 ''shuffle'')"
    by (simp add: countOf_def drawPayload_def)
  ultimately have c1:
    "length (handleDrawCard ratedDbUnlocked (drawPayload 1 ''shuffle'') exPow (\<lambda>k. 0) 9000) = 0"
    using length_drawSelected [of "drawPayload 1 ''shuffle''" ratedDbUnlocked exPow "\<lambda>k. 0" 9000]
    by (simp add: handleDrawCard_def)
  have "length (specEligible ratedDbUnlocked (excludedOf (drawPayload 1 ''shuffle'')))
        = length (filter (\<lambda>(i, del, l, k, t, f). \<not> truthyNum del \<and> \<not> truthy l \<and> \<not> truthy k
                            \<and> i \<notin> set (excludedOf (drawPayload 1 ''shuffle'')))
                    (map (\<lambda>v. (vocabId v, deletedAt v, scoreLocked v, isKnown v, isTraced v,
                               familiarityScore v))
                       (vocabulary ratedDbUnlocked)))"
    by (simp add: specEligible_def filter_map comp_def)
  then have c2: "min (nat 1) (length (specEligible ratedDbUnlocked
                                      (excludedOf (drawPayload 1 ''shuffle'')))) = 1"
    by (simp add: ratedDbUnlocked_vocabulary truthy_def truthyNum_def excludedOf_def
        drawPayload_def)
  have c3: "length (handleDrawCard tieDb (drawPayload (- 1) ''auto'') exPow (\<lambda>k. 0) 9000) = 2"
    by (simp add: handleDrawCard_def drawSelected_def pickTopN_def slice0_def
        length_scoredEligible countOf_def excludedOf_def drawPayload_def tieDb_eligible)
  have c4: "min (- 1) (int (length (specEligible tieDb (excludedOf (drawPayload (- 1) ''auto''))))) = - 1"
    by simp
  show ?thesis using c1 c2 c3 c4 by simp
qed

subsection \<open>Two priorities that differ only in doubles\<close>

lemma near_encounters_sorted:
  "sort_key encounterId (encounters nearTieDb) = encounters nearTieDb"
  by (rule sort_key_id_if_sorted)
     (simp add: nearTieDb_def encountersFor_def encounterOf_def rowIds_def)

lemma near_scores:
  "scoreAtDraw nearTieDb nearA = Num 4"
  "scoreAtDraw nearTieDb nearB = Num 6"
  unfolding scoreAtDraw_def near_encounters_sorted
  by (simp_all add: nearTieDb_def encountersFor_def encounterOf_def rowIds_def nearA_def
        nearB_def plainEntry_def score_defs fl_defs)

lemma near_candidates: "drawCandidates nearTieDb = [nearA, nearB]"
  by (simp add: drawCandidates_def tbl_toArray_def nearTieDb_def nearA_def nearB_def
      plainEntry_def truthy_def truthyNum_def)

lemma near_ids: "vocabId nearA = ''a''" "vocabId nearB = ''b''"
  by (simp_all add: nearA_def nearB_def plainEntry_def)

lemma near_priorities:
  "priorityOf reviewNow nearA 4 = 2409425800643215 / 4503599627370496"
  "priorityOf reviewNow nearB 6 = 4818851601286431 / 9007199254740992"
  unfolding priorityOf_def srsDueOf_def Let_def
  by (simp_all add: nearA_def nearB_def plainEntry_def reviewNow_def msPerDay_def
      KNOWN_THRESHOLD_def truthy_def fl_defs)

lemma near_scored:
  "scoredEligible nearTieDb [''e''] reviewNow
   = [\<lparr>i_vocab = nearA, i_score = 4, i_priority = 2409425800643215 / 4503599627370496\<rparr>,
      \<lparr>i_vocab = nearB, i_score = 6, i_priority = 4818851601286431 / 9007199254740992\<rparr>]"
  by (simp add: scoredEligible_def near_candidates List.map_filter_simps near_ids
      realTimeScore_scoreAtDraw near_scores near_priorities KNOWN_THRESHOLD_def)

lemma near_auto:
  "drawSelected nearTieDb (reviewPayload 2 ''auto'') pow random reviewNow
   = [\<lparr>i_vocab = nearB, i_score = 6, i_priority = 4818851601286431 / 9007199254740992\<rparr>,
      \<lparr>i_vocab = nearA, i_score = 4, i_priority = 2409425800643215 / 4503599627370496\<rparr>]"
  by (simp add: drawSelected_def reviewPayload_def excludedOf_def countOf_def near_scored
      pickTopN_def slice0_def Let_def)

lemma near_cards:
  "map (\<lambda>c. (c_vocabId c, c_priority c))
     (map toCard
        [\<lparr>i_vocab = nearB, i_score = 6, i_priority = 4818851601286431 / 9007199254740992\<rparr>,
         \<lparr>i_vocab = nearA, i_score = 4, i_priority = 2409425800643215 / 4503599627370496\<rparr>])
   = [(''b'', 607985949695017 / 1125899906842624), (''a'', 2386907802506363 / 4503599627370496)]"
  by (simp add: toCard_def near_ids fl_defs)

theorem drawSelected_auto_ranked_witness:
  "dc_mode (reviewPayload 2 ''auto'') = Some ''auto'' \<and> 0 \<le> countOf (reviewPayload 2 ''auto'')
   \<and> distinct (map vocabId (vocabulary nearTieDb))
   \<and> (0.45 * 0.5 + 0.25 * (1 - 4 / 100) + 0.20 * 0.3 + 0.10 * (1.4 / 14) :: real)
       = 0.45 * 0.5 + 0.25 * (1 - 6 / 100) + 0.20 * 0.3 + 0.10 * (2.1 / 14)
   \<and> map (\<lambda>i. (vocabId (i_vocab i), i_score i, i_priority i))
         (drawSelected nearTieDb (reviewPayload 2 ''auto'') exPow (\<lambda>k. 0) reviewNow)
       = [(''b'', 6, 4818851601286431 / 9007199254740992),
          (''a'', 4, 2409425800643215 / 4503599627370496)]
   \<and> map (\<lambda>c. (c_vocabId c, c_priority c))
         (handleDrawCard nearTieDb (reviewPayload 2 ''auto'') exPow (\<lambda>k. 0) reviewNow)
       = [(''b'', 607985949695017 / 1125899906842624),
          (''a'', 2386907802506363 / 4503599627370496)]
   \<and> (\<exists>rest.
         sorted_wrt rankedBefore
           (drawSelected nearTieDb (reviewPayload 2 ''auto'') exPow (\<lambda>k. 0) reviewNow @ rest)
         \<and> set (drawSelected nearTieDb (reviewPayload 2 ''auto'') exPow (\<lambda>k. 0) reviewNow @ rest)
             = set (scoredEligible nearTieDb (excludedOf (reviewPayload 2 ''auto'')) reviewNow)
         \<and> length (drawSelected nearTieDb (reviewPayload 2 ''auto'') exPow (\<lambda>k. 0) reviewNow)
             = min (nat (countOf (reviewPayload 2 ''auto'')))
                 (length (drawEligible nearTieDb (excludedOf (reviewPayload 2 ''auto'')))))"
proof -
  have h1: "dc_mode (reviewPayload 2 ''auto'') = Some ''auto''"
    by (simp add: reviewPayload_def)
  have h2: "0 \<le> countOf (reviewPayload 2 ''auto'')"
    by (simp add: countOf_def reviewPayload_def)
  have h3: "distinct (map vocabId (vocabulary nearTieDb))"
    by (simp add: nearTieDb_def near_ids)
  have tie: "(0.45 * 0.5 + 0.25 * (1 - 4 / 100) + 0.20 * 0.3 + 0.10 * (1.4 / 14) :: real)
       = 0.45 * 0.5 + 0.25 * (1 - 6 / 100) + 0.20 * 0.3 + 0.10 * (2.1 / 14)"
    by simp
  have sel: "map (\<lambda>i. (vocabId (i_vocab i), i_score i, i_priority i))
         (drawSelected nearTieDb (reviewPayload 2 ''auto'') exPow (\<lambda>k. 0) reviewNow)
       = [(''b'', 6, 4818851601286431 / 9007199254740992),
          (''a'', 4, 2409425800643215 / 4503599627370496)]"
    by (simp add: near_auto near_ids)
  have cards: "map (\<lambda>c. (c_vocabId c, c_priority c))
         (handleDrawCard nearTieDb (reviewPayload 2 ''auto'') exPow (\<lambda>k. 0) reviewNow)
       = [(''b'', 607985949695017 / 1125899906842624),
          (''a'', 2386907802506363 / 4503599627370496)]"
    unfolding handleDrawCard_def near_auto by (rule near_cards)
  from drawSelected_auto_ranked [OF h1 h2 h3, of exPow "\<lambda>k. 0" reviewNow exPow "\<lambda>k. 0"]
  have "\<exists>rest.
         sorted_wrt rankedBefore
           (drawSelected nearTieDb (reviewPayload 2 ''auto'') exPow (\<lambda>k. 0) reviewNow @ rest)
         \<and> set (drawSelected nearTieDb (reviewPayload 2 ''auto'') exPow (\<lambda>k. 0) reviewNow @ rest)
             = set (scoredEligible nearTieDb (excludedOf (reviewPayload 2 ''auto'')) reviewNow)
         \<and> length (drawSelected nearTieDb (reviewPayload 2 ''auto'') exPow (\<lambda>k. 0) reviewNow)
             = min (nat (countOf (reviewPayload 2 ''auto'')))
                 (length (drawEligible nearTieDb (excludedOf (reviewPayload 2 ''auto''))))"
    by blast
  then show ?thesis using h1 h2 h3 tie sel cards by blast
qed

text \<open>
  The claim as stated fails: in the review store three entries are eligible in the
  specification's sense, \<open>b\<close> among them with stored score 0, and a draw of three in
  auto mode returns two, because the score of \<open>b\<close> at the time of the draw is 100.
\<close>

theorem drawSelected_auto_counterexample:
  "map vocabId (specEligible reviewDb (excludedOf (reviewPayload 3 ''auto'')))
     = [''c'', ''a'', ''b'']
   \<and> map c_vocabId (handleDrawCard reviewDb (reviewPayload 3 ''auto'') exPow (\<lambda>k. 0) reviewNow)
       = [''c'', ''a'']
   \<and> familiarityScore reviewB = Some (Num 0) \<and> isKnown reviewB = Some False
   \<and> scoreAtDraw reviewDb reviewB = Num 100"
proof -
  have "map c_vocabId (handleDrawCard reviewDb (reviewPayload 3 ''auto'') exPow (\<lambda>k. 0) reviewNow)
        = [''c'', ''a'']"
    by (simp add: handleDrawCard_def review_auto toCard_def review_ids)
  moreover have "familiarityScore reviewB = Some (Num 0)" "isKnown reviewB = Some False"
    by (simp_all add: reviewB_def plainEntry_def)
  ultimately show ?thesis
    by (simp add: excludedOf_def reviewPayload_def review_eligible review_scores)
qed

section \<open>The entry invariants under tracing and synchronisation\<close>

text \<open>The trace of the rated entry doubles the twenty ratings to a score of 200.\<close>

lemma ratedDbTraced_eval [code]:
  "ratedDbTraced
   = updateVocab ratedDbLocked ''v1''
       (\<lambda>v. v\<lparr>isTraced := Some True, familiarityScore := Some (Num 200),
               isKnown := Some True, updatedAt := 3000\<rparr>)"
proof -
  have "map_option isTraced (getVocab ratedDbLocked ''v1'') = Some None"
    by code_simp
  then obtain vocab where v: "getVocab ratedDbLocked ''v1'' = Some vocab" "isTraced vocab = None"
    by auto
  have src: "map source (encountersOf ratedDbLocked ''v1'') = sourcesB"
    by code_simp
  have sc: "calculateWeightedScore sourcesB (traceMultiplier True) = Num 200"
    by (simp add: sourcesB_def score_defs fl_defs)
  show ?thesis
    by (simp add: ratedDbTraced_def handleToggleTraceWord_def Let_def v src sc
        KNOWN_THRESHOLD_def)
qed

text \<open>
  Claim C2 fails on the code. From a state in which every entry satisfies
  \<open>isKnown == (familiarityScore >= 100)\<close>, a forced synchronisation locks the entry,
  \<open>handleToggleTraceWord\<close> traces it and a second forced synchronisation unlocks it with
  \<open>isKnown = false\<close> while keeping the stored score of 200.
\<close>

theorem sync_unlock_breaks_known_invariant:
  "list_all knownInvariant (vocabulary ratedDb)
   \<and> list_all knownInvariant (vocabulary ratedDbLocked)
   \<and> list_all knownInvariant (vocabulary ratedDbTraced)
   \<and> map (\<lambda>v. (isKnown v, familiarityScore v)) (vocabulary ratedDbResynced)
       = [(Some False, Some (Num 200))]
   \<and> \<not> list_all knownInvariant (vocabulary ratedDbResynced)"
  by code_simp

text \<open>
  Claim C3 fails on the code. \<open>handleToggleTraceWord\<close> with \<open>traced = true\<close> on a
  noise-locked entry leaves \<open>scoreLocked = true\<close> beside \<open>isTraced = true\<close>.
\<close>

theorem toggleTrace_leaves_lock:
  "\<not> list_ex lockedAndTraced (vocabulary lockedDb)
   \<and> map (\<lambda>v. (scoreLocked v, isTraced v))
        (vocabulary (snd (handleToggleTraceWord lockedDb (Some ''v1'') True 5000)))
      = [(Some True, Some True)]
   \<and> list_ex lockedAndTraced
        (vocabulary (snd (handleToggleTraceWord lockedDb (Some ''v1'') True 5000)))"
proof -
  have "map_option isTraced (getVocab lockedDb ''v1'') = Some None"
    by code_simp
  then obtain vocab where v: "getVocab lockedDb ''v1'' = Some vocab" "isTraced vocab = None"
    by auto
  have src: "map source (encountersOf lockedDb ''v1'') = [''lookup'']"
    by code_simp
  have sc: "calculateWeightedScore [''lookup''] (traceMultiplier True) = Num 2"
    by (simp add: score_defs fl_defs)
  have eq: "snd (handleToggleTraceWord lockedDb (Some ''v1'') True 5000)
            = updateVocab lockedDb ''v1''
                (\<lambda>v. v\<lparr>isTraced := Some True, familiarityScore := Some (Num 2),
                        isKnown := Some False, updatedAt := 5000\<rparr>)"
    by (simp add: handleToggleTraceWord_def Let_def v src sc KNOWN_THRESHOLD_def)
  show ?thesis
    unfolding eq by code_simp
qed


section \<open>Auto-trace replenishment\<close>

lemma vocabulary_updateVocab:
  "vocabulary (updateVocab d vid f) = tbl_update vocabId (vocabulary d) vid f"
  by (simp add: updateVocab_def)

lemma foldl_trace_vocabulary:
  "vocabulary (foldl (\<lambda>acc v. updateVocab acc (vocabId v)
                       (\<lambda>x. x\<lparr>isTraced := Some True, updatedAt := now\<rparr>)) d sel)
   = map (\<lambda>v. if vocabId v \<in> vocabId ` set sel
               then v\<lparr>isTraced := Some True, updatedAt := now\<rparr> else v) (vocabulary d)"
proof (induction sel arbitrary: d)
  case Nil
  then show ?case by simp
next
  case (Cons s sel)
  show ?case
    by (auto simp: Cons.IH vocabulary_updateVocab tbl_update_def)
qed

lemma foldl_trace_other:
  "encounters (foldl (\<lambda>acc v. updateVocab acc (vocabId v) f) d sel) = encounters d
   \<and> settings (foldl (\<lambda>acc v. updateVocab acc (vocabId v) f) d sel) = settings d"
  by (induction sel arbitrary: d) simp_all

lemma length_filter_ids:
  assumes "distinct (map f xs)"
  shows "length (filter (\<lambda>x. f x \<in> f ` set ys) xs) \<le> length ys"
proof -
  have "length (filter (\<lambda>x. f x \<in> f ` set ys) xs)
        = length (map f (filter (\<lambda>x. f x \<in> f ` set ys) xs))" by simp
  also have "\<dots> = card (set (map f (filter (\<lambda>x. f x \<in> f ` set ys) xs)))"
  proof -
    have "distinct (map f (filter (\<lambda>x. f x \<in> f ` set ys) xs))"
      using assms by (rule distinct_map_filter)
    then show ?thesis by (simp only: distinct_card)
  qed
  also have "\<dots> \<le> card (f ` set ys)"
    by (intro card_mono) auto
  also have "\<dots> \<le> length ys"
    by (metis card_image_le card_length le_trans List.finite_set)
  finally show ?thesis .
qed

lemma count_after_update:
  "length (filter P (map (\<lambda>v. if Q v then g v else v) xs))
   \<le> length (filter P xs) + length (filter Q xs)"
  by (induction xs) auto

lemma length_autoTraceSelection:
  "length (autoTraceSelection dict wordbankSet now d slots) \<le> nat \<lfloor>slots\<rfloor>"
  by (simp add: autoTraceSelection_def)

lemma unchanged_rows:
  "filter (\<lambda>(v, v'). isTraced v \<noteq> isTraced v') (zip xs xs) = []"
  by (induction xs) auto

lemma changed_rows:
  "length (filter (\<lambda>(v, v'). isTraced v \<noteq> isTraced v')
             (zip xs (map (\<lambda>v. if Q v then v\<lparr>isTraced := Some True, updatedAt := now\<rparr> else v) xs)))
   \<le> length (filter Q xs)"
  by (induction xs) auto

text \<open>
  Claim C8. With unique vocabulary ids, auto-trace replenishment flips \<open>isTraced\<close> on at
  most \<open>poolSize - currentActiveTracedCount\<close> entries and on none when that difference
  is not positive; so when the active traced count (traced, not known, not deleted) is
  at most \<open>poolSize\<close> before, it is at most \<open>poolSize\<close> after.
\<close>

theorem autoTraceReplenish_bounded:
  assumes "distinct (map vocabId (vocabulary d))"
  shows "int (activeTracedCount (autoTraceReplenish dict wordbankSet now d))
           \<le> int (activeTracedCount d)
              + max 0 \<lfloor>autoTracePoolSizeOf (settings d) - real (activeTracedCount d)\<rfloor>
         \<and> int (length (filter (\<lambda>(v, v'). isTraced v \<noteq> isTraced v')
                          (zip (vocabulary d)
                               (vocabulary (autoTraceReplenish dict wordbankSet now d)))))
           \<le> max 0 \<lfloor>autoTracePoolSizeOf (settings d) - real (activeTracedCount d)\<rfloor>
         \<and> (autoTracePoolSizeOf (settings d) - real (activeTracedCount d) \<le> 0
              \<longrightarrow> autoTraceReplenish dict wordbankSet now d = d)
         \<and> (real (activeTracedCount d) \<le> autoTracePoolSizeOf (settings d)
              \<longrightarrow> real (activeTracedCount (autoTraceReplenish dict wordbankSet now d))
                    \<le> autoTracePoolSizeOf (settings d))"
proof -
  let ?pool = "autoTracePoolSizeOf (settings d)"
  let ?slots = "?pool - real (activeTracedCount d)"
  let ?d' = "autoTraceReplenish dict wordbankSet now d"
  let ?changed = "length (filter (\<lambda>(v, v'). isTraced v \<noteq> isTraced v')
                            (zip (vocabulary d) (vocabulary ?d')))"
  have noop: "?d' = d" if "?slots \<le> 0"
    using that by (simp add: autoTraceReplenish_def Let_def)
  have bound: "int (activeTracedCount ?d') \<le> int (activeTracedCount d) + max 0 \<lfloor>?slots\<rfloor>
               \<and> int ?changed \<le> max 0 \<lfloor>?slots\<rfloor>"
  proof (cases "autoTraceEnabled (settings d) \<noteq> Some False \<and> 0 < ?slots")
    case False
    then have "?d' = d" by (auto simp: autoTraceReplenish_def Let_def)
    then show ?thesis by (simp add: unchanged_rows)
  next
    case True
    define sel where "sel = autoTraceSelection dict wordbankSet now d ?slots"
    have d': "?d' = foldl (\<lambda>acc v. updateVocab acc (vocabId v)
                             (\<lambda>x. x\<lparr>isTraced := Some True, updatedAt := now\<rparr>)) d sel"
      using True by (simp add: autoTraceReplenish_def Let_def sel_def)
    have voc: "vocabulary ?d'
               = map (\<lambda>v. if vocabId v \<in> vocabId ` set sel
                           then v\<lparr>isTraced := Some True, updatedAt := now\<rparr> else v)
                   (vocabulary d)"
      unfolding d' by (rule foldl_trace_vocabulary)
    have rows: "length (filter (\<lambda>v. vocabId v \<in> vocabId ` set sel) (vocabulary d))
                \<le> nat \<lfloor>?slots\<rfloor>"
      using length_filter_ids [OF assms, of sel]
        length_autoTraceSelection [of dict wordbankSet now d ?slots]
      by (simp add: sel_def)
    have "activeTracedCount ?d'
          \<le> activeTracedCount d
             + length (filter (\<lambda>v. vocabId v \<in> vocabId ` set sel) (vocabulary d))"
      unfolding activeTracedCount_def voc by (rule count_after_update)
    moreover have "?changed
          \<le> length (filter (\<lambda>v. vocabId v \<in> vocabId ` set sel) (vocabulary d))"
      unfolding voc by (rule changed_rows)
    ultimately show ?thesis using rows by linarith
  qed
  have pool: "real (activeTracedCount ?d') \<le> ?pool" if le: "real (activeTracedCount d) \<le> ?pool"
  proof -
    have "0 \<le> \<lfloor>?slots\<rfloor>" using le by simp
    then have "int (activeTracedCount ?d') \<le> int (activeTracedCount d) + \<lfloor>?slots\<rfloor>"
      using bound by simp
    then have "real (activeTracedCount ?d') \<le> real (activeTracedCount d) + of_int \<lfloor>?slots\<rfloor>"
      by linarith
    also have "\<dots> \<le> real (activeTracedCount d) + ?slots"
      using of_int_floor_le [of ?slots] by linarith
    finally show ?thesis by simp
  qed
  show ?thesis using noop bound pool by blast
qed


theorem autoTraceReplenish_bounded_witness:
  "distinct (map vocabId (vocabulary poolDb))
   \<and> real (activeTracedCount poolDb) \<le> autoTracePoolSizeOf (settings poolDb)
   \<and> activeTracedCount poolDb = 1
   \<and> map (\<lambda>v. (vocabId v, isTraced v))
         (vocabulary (autoTraceReplenish (\<lambda>l. None) [''worda'', ''wordb''] 9000 poolDb))
       = [(''b'', Some True), (''c'', Some True), (''a'', None)]
   \<and> real (activeTracedCount (autoTraceReplenish (\<lambda>l. None) [''worda'', ''wordb''] 9000 poolDb))
       \<le> autoTracePoolSizeOf (settings poolDb)"
proof -
  have h1: "distinct (map vocabId (vocabulary poolDb))"
    by (simp add: poolDb_def tieDb_def plainEntry_def)
  have h2: "activeTracedCount poolDb = 1"
    by (simp add: activeTracedCount_def activeTraced_def poolDb_def tieDb_def plainEntry_def
        truthy_def truthyNum_def)
  have h3: "autoTracePoolSizeOf (settings poolDb) = 2"
    by (simp add: autoTracePoolSizeOf_def poolDb_def emptySettings_def)
  have sel: "autoTraceSelection (\<lambda>l. None) [''worda'', ''wordb''] 9000 poolDb 1
             = [plainEntry ''b'']"
    by (simp add: autoTraceSelection_def autoTraceCandidates_def autoTraceScore_def
        candCount_def candLastSeen_def encountersOf_def tbl_toArray_def poolDb_def tieDb_def
        plainEntry_def scanOf_def emptySettings_def autoTraceMinEncountersOf_def
        VALID_WORD_RE_def asciiLower_def truthy_def truthyNum_def msPerDay_def Let_def)
       (simp add: fl_defs)
  have "vocabulary (autoTraceReplenish (\<lambda>l. None) [''worda'', ''wordb''] 9000 poolDb)
        = vocabulary (updateVocab poolDb ''b'' (\<lambda>x. x\<lparr>isTraced := Some True, updatedAt := 9000\<rparr>))"
    by (simp add: autoTraceReplenish_def Let_def h2 h3 sel)
       (simp add: plainEntry_def poolDb_def emptySettings_def)
  then have ex: "map (\<lambda>v. (vocabId v, isTraced v))
              (vocabulary (autoTraceReplenish (\<lambda>l. None) [''worda'', ''wordb''] 9000 poolDb))
            = [(''b'', Some True), (''c'', Some True), (''a'', None)]"
    by (simp add: updateVocab_def tbl_update_def poolDb_def tieDb_def plainEntry_def)
  show ?thesis
    using h1 h2 h3 ex autoTraceReplenish_bounded [OF h1, of "\<lambda>l. None" "[''worda'', ''wordb'']" 9000]
    by simp
qed


section \<open>Promotion on a page scan\<close>

subsection \<open>The enabled wordbank words\<close>





lemma snd_mapSet: "x \<in> set (map snd (mapSet m k v)) \<Longrightarrow> x = v \<or> x \<in> set (map snd m)"
  by (auto simp: mapSet_def split: if_splits)





lemma set_firstOccurrences [simp]: "set (firstOccurrences xs) = set xs"
  by (simp add: firstOccurrences_def)


subsection \<open>One step of the threshold promotion\<close>




lemma lemmaStatId_markPromoted [simp]:
  "lemmaStatId (markPromoted vid why now s) = lemmaStatId s"
  by (simp add: markPromoted_def)

lemma promotedVocabId_markPromoted [simp]:
  "promotedVocabId (markPromoted vid why now s) = Some vid"
  by (simp add: markPromoted_def)


subsection \<open>The threshold rule\<close>






subsection \<open>Wordbank words are promoted below the thresholds\<close>

lemma appleWords_eval [code]:
  "appleWords = [(''apple'', \<lparr>wb_wordbankId = ''wb_cet4'', wb_lemma = ''apple'',
                    wb_surface = ''apple'', sourceWordbankIds = [''wb_cet4'']\<rparr>)]"
  by code_simp

lemma appleQualified_eval [code]: "appleQualified = [(''apple'', 1)]"
  by code_simp


lemma appleThreshold_eval [code]:
  "appleThreshold = (appleDb\<lparr>lemmaStats := [appleStat]\<rparr>, [appleStat], 1)"
  by code_simp

lemma appleWordbank_eval [code]:
  "appleWordbank = (appleDb\<lparr>lemmaStats := [appleStatPromoted]\<rparr>, [appleStatPromoted],
                    [(''apple'', appleVocab)], [(''id-x'', appleVocab)], 2)"
  by code_simp





end
